theory Spec2Isabelle
  imports Main
begin

section \<open>Rate limiter (src/src/core/rate-limiter.ts, src/src/config.ts)\<close>

text \<open>
  The limiter keeps the timestamps of the calls of the trailing window. Timestamps are the
  integer milliseconds of \<^verbatim>\<open>Date.now()\<close>. Every method that reads the clock takes its
  readings as arguments, in the order in which the source reads them, so that nothing is
  assumed about the clock (two readings of one call may differ).
\<close>

definition RATE_LIMIT_MAX_CALLS :: int where
  "RATE_LIMIT_MAX_CALLS = 250"

definition RATE_LIMIT_WINDOW_MS :: int where
  "RATE_LIMIT_WINDOW_MS = 10000"

record RateLimiter =
  maxCalls :: int
  windowMs :: int
  calls :: "int list"

text \<open>
  The error of \<^verbatim>\<open>acquire\<close>. Its message is built from \<^verbatim>\<open>maxCalls\<close>,
  \<^verbatim>\<open>windowMs\<close> and the value of \<^verbatim>\<open>getWaitTime()\<close>; the three numbers are kept,
  the formatting of the text is not modelled.
\<close>

datatype limiter_error = RateLimitExceeded int int int

definition new_RateLimiter :: "int \<Rightarrow> int \<Rightarrow> RateLimiter" where
  "new_RateLimiter m w = \<lparr>maxCalls = m, windowMs = w, calls = []\<rparr>"

definition default_RateLimiter :: RateLimiter where
  "default_RateLimiter = new_RateLimiter RATE_LIMIT_MAX_CALLS RATE_LIMIT_WINDOW_MS"

definition cleanup :: "int \<Rightarrow> RateLimiter \<Rightarrow> RateLimiter" where
  "cleanup now rl =
     (let windowStart = now - windowMs rl
      in rl\<lparr>calls := filter (\<lambda>timestamp. timestamp > windowStart) (calls rl)\<rparr>)"

definition canAcquire :: "int \<Rightarrow> RateLimiter \<Rightarrow> bool \<times> RateLimiter" where
  "canAcquire now rl =
     (let rl1 = cleanup now rl
      in (int (length (calls rl1)) < maxCalls rl1, rl1))"

text \<open>
  \<^verbatim>\<open>getWaitTime\<close> reads the clock in \<^verbatim>\<open>cleanup\<close> (\<open>t1\<close>) and again in
  \<^verbatim>\<open>Math.max(0, waitUntil - Date.now())\<close> (\<open>t2\<close>). The test \<^verbatim>\<open>!oldestCall\<close> holds
  for a missing first element and for the timestamp 0.
\<close>

definition getWaitTime :: "int \<Rightarrow> int \<Rightarrow> RateLimiter \<Rightarrow> int \<times> RateLimiter" where
  "getWaitTime t1 t2 rl =
     (let rl1 = cleanup t1 rl
      in if int (length (calls rl1)) < maxCalls rl1 then (0, rl1)
         else (case calls rl1 of
                 [] \<Rightarrow> (0, rl1)
               | oldestCall # _ \<Rightarrow>
                   if oldestCall = 0 then (0, rl1)
                   else (max 0 (oldestCall + windowMs rl1 - t2), rl1)))"

text \<open>
  \<^verbatim>\<open>acquire\<close> reads the clock in \<^verbatim>\<open>cleanup\<close> (\<open>t1\<close>). When it records the
  call, \<open>t2\<close> is the reading of \<^verbatim>\<open>this.calls.push(Date.now())\<close>. When it throws, the
  message evaluates \<^verbatim>\<open>getWaitTime()\<close>, whose two readings are \<open>t2\<close> and \<open>t3\<close>,
  and whose \<^verbatim>\<open>cleanup\<close> also changes the limiter.
\<close>

definition acquire ::
  "int \<Rightarrow> int \<Rightarrow> int \<Rightarrow> RateLimiter \<Rightarrow> (limiter_error + unit) \<times> RateLimiter" where
  "acquire t1 t2 t3 rl =
     (let rl1 = cleanup t1 rl
      in if int (length (calls rl1)) \<ge> maxCalls rl1
         then (let (w, rl2) = getWaitTime t2 t3 rl1
               in (Inl (RateLimitExceeded (maxCalls rl1) (windowMs rl1) w), rl2))
         else (Inr (), rl1\<lparr>calls := calls rl1 @ [t2]\<rparr>))"

definition getCount :: "int \<Rightarrow> RateLimiter \<Rightarrow> nat \<times> RateLimiter" where
  "getCount now rl = (let rl1 = cleanup now rl in (length (calls rl1), rl1))"

definition getRemainingCapacity :: "int \<Rightarrow> RateLimiter \<Rightarrow> int \<times> RateLimiter" where
  "getRemainingCapacity now rl =
     (let rl1 = cleanup now rl in (max 0 (maxCalls rl1 - int (length (calls rl1))), rl1))"

definition reset :: "RateLimiter \<Rightarrow> RateLimiter" where
  "reset rl = rl\<lparr>calls := []\<rparr>"

definition getWindowMs :: "RateLimiter \<Rightarrow> int" where
  "getWindowMs rl = windowMs rl"

text \<open>
  The loop of the tests, \<^verbatim>\<open>for (...) limiter.acquire()\<close>: one \<^verbatim>\<open>acquire\<close> per
  triple of clock readings, each on the limiter the one before left. It stops at the
  first call that throws, as the exception ends the loop.
\<close>

fun acquire_loop ::
  "(int \<times> int \<times> int) list \<Rightarrow> RateLimiter \<Rightarrow> (limiter_error + unit) \<times> RateLimiter" where
  "acquire_loop [] rl = (Inr (), rl)"
| "acquire_loop ((t1, t2, t3) # ts) rl =
     (case acquire t1 t2 t3 rl of
        (Inl e, rl1) \<Rightarrow> (Inl e, rl1)
      | (Inr _, rl1) \<Rightarrow> acquire_loop ts rl1)"

text \<open>
  The readings of a call that decide what it does to the limiter, \<open>t1\<close> and \<open>t2\<close>,
  lie in the window of \<open>w\<close> milliseconds that starts at \<open>T\<close>: a timestamp recorded
  at or after \<open>T\<close> is still inside the trailing window at each of them. (The third
  reading only enters the wait time of the error message.)
\<close>

definition in_window :: "int \<Rightarrow> int \<Rightarrow> int \<times> int \<times> int \<Rightarrow> bool" where
  "in_window T w t =
     (case t of (t1, t2, t3) \<Rightarrow> T \<le> t1 \<and> t1 < T + w \<and> T \<le> t2 \<and> t2 < T + w)"

section \<open>JavaScript values and the JSON built-ins\<close>

text \<open>
  The values that previous-state records hold and that \<^verbatim>\<open>JSON.parse\<close> returns.
  Numbers are kept abstract (\<open>'n\<close>); only the test against zero that truthiness needs is
  used. \<open>JsBigInt\<close> is the one kind of value here that \<^verbatim>\<open>JSON.stringify\<close> refuses.
  An object is its list of own properties.
\<close>

datatype 'n JsValue =
    JsNull
  | JsBool bool
  | JsNumber 'n
  | JsBigInt int
  | JsString string
  | JsArray "'n JsValue list"
  | JsObject "(string \<times> 'n JsValue) list"

text \<open>What \<^verbatim>\<open>if (v)\<close> tests.\<close>

fun truthy :: "'n::zero JsValue \<Rightarrow> bool" where
  "truthy JsNull = False"
| "truthy (JsBool b) = b"
| "truthy (JsNumber n) = (n \<noteq> 0)"
| "truthy (JsBigInt i) = (i \<noteq> 0)"
| "truthy (JsString s) = (s \<noteq> [])"
| "truthy (JsArray _) = True"
| "truthy (JsObject _) = True"

text \<open>
  \<^verbatim>\<open>v?.key\<close> for a key that no prototype defines: the own property of an object,
  \<^verbatim>\<open>undefined\<close> (\<open>None\<close>) for every other value.
\<close>

fun getProp :: "'n JsValue \<Rightarrow> string \<Rightarrow> 'n JsValue option" where
  "getProp (JsObject props) key = map_of props key"
| "getProp _ key = None"

fun containsBigInt :: "'n JsValue \<Rightarrow> bool" where
  "containsBigInt (JsBigInt _) = True"
| "containsBigInt (JsArray vs) = list_ex containsBigInt vs"
| "containsBigInt (JsObject props) = list_ex containsBigInt (map snd props)"
| "containsBigInt _ = False"

text \<open>
  What a \<^verbatim>\<open>throw\<close> carries: an \<^verbatim>\<open>Error\<close> object of some class with its message, or
  a value that is not an \<^verbatim>\<open>Error\<close>.
\<close>

datatype thrown =
    SQLiteError string
  | SyntaxError string
  | TypeError string
  | GenericError string
  | NonError

text \<open>\<^verbatim>\<open>error instanceof Error ? error.message : 'Unknown error'\<close>\<close>

fun catchMessage :: "thrown \<Rightarrow> string" where
  "catchMessage (SQLiteError m) = m"
| "catchMessage (SyntaxError m) = m"
| "catchMessage (TypeError m) = m"
| "catchMessage (GenericError m) = m"
| "catchMessage NonError = ''Unknown error''"

text \<open>
  \<^verbatim>\<open>JSON.stringify\<close> throws a \<^verbatim>\<open>TypeError\<close> when it reaches a BigInt; on every
  other value of the model it returns the text that the encoder \<open>render\<close> gives. The
  encoder is a parameter: the built-in is not part of the repository.
  \<^verbatim>\<open>JSON.parse\<close> is a parameter too; \<open>Inl m\<close> is a \<^verbatim>\<open>SyntaxError\<close> with
  message \<open>m\<close>.
\<close>

definition JSON_stringify :: "('n JsValue \<Rightarrow> string) \<Rightarrow> 'n JsValue \<Rightarrow> thrown + string" where
  "JSON_stringify render v =
     (if containsBigInt v then Inl (TypeError ''JSON.stringify cannot serialize BigInt.'')
      else Inr (render v))"

definition JSON_parse :: "(string \<Rightarrow> string + 'n JsValue) \<Rightarrow> string \<Rightarrow> thrown + 'n JsValue" where
  "JSON_parse parse text =
     (case parse text of Inl m \<Rightarrow> Inl (SyntaxError m) | Inr v \<Rightarrow> Inr v)"

text \<open>The decimal digits of a count, as a template literal prints it.\<close>

fun decimal :: "nat \<Rightarrow> string" where
  "decimal n =
     (if n < 10 then [''0123456789'' ! n]
      else decimal (n div 10) @ [''0123456789'' ! (n mod 10)])"

section \<open>Snapshot types (types/snapshot.ts in src/unnamed/part_007, src/src/services/snapshot-manager.ts)\<close>

datatype OperationType = Add | AddProject | Update | UpdateProject | Complete | Cancel | Json

datatype SnapshotStatus = Active | RolledBack | PartialRollback | Expired

datatype ItemType = ToDo | Project

fun itemTypeText :: "ItemType \<Rightarrow> string" where
  "itemTypeText ToDo = ''to-do''"
| "itemTypeText Project = ''project''"

text \<open>
  The fields \<^verbatim>\<open>thingsId\<close> and \<^verbatim>\<open>itemType\<close> occur in every item, input and action;
  they are the common root of the records below. The records of the inputs come first, the
  stored ones after them, so that an unqualified field name means the stored record.
\<close>

record ThingsRef =
  thingsId :: string
  itemType :: ItemType

record CreatedItemInput = ThingsRef +
  title :: string
  parentId :: "string option"

record AddSnapshotData = CreatedItemInput +
  command :: string

record 'n ModifiedItemInput = ThingsRef +
  previousState :: "(string \<times> 'n JsValue) list"
  modifiedFields :: "string list"

record 'n UpdateSnapshotData = "'n ModifiedItemInput" +
  command :: string

record StatusChangeInput = ThingsRef +
  previousStatus :: string
  newStatus :: string

record StatusChangeData = StatusChangeInput +
  title :: string
  command :: string

record 'n BulkSnapshotData =
  command :: string
  createdItems :: "CreatedItemInput list"
  modifiedItems :: "'n ModifiedItemInput list"
  statusChanges :: "StatusChangeInput list"

record CreateSnapshotInput =
  description :: string
  operationType :: OperationType
  command :: string

datatype ActionKind = Cancel_action | Restore_action | RevertStatus_action

record 'n RollbackAction = ThingsRef +
  action :: ActionKind
  data :: "'n JsValue option"

record 'n RollbackPlan =
  snapshotId :: string
  operationType :: OperationType
  description :: string
  actions :: "'n RollbackAction list"
  warnings :: "string list"

record RollbackResult =
  success :: bool
  snapshotId :: string
  itemsRolledBack :: nat
  itemsFailed :: nat
  errors :: "string list"

record ExecutionResult =
  success :: bool
  url :: string
  error :: "string option"
  dryRun :: "bool option"

record RollbackOptions =
  dryRun :: "bool option"
  json :: "bool option"
  force :: "bool option"

record 'n RollbackCommandResult =
  success :: bool
  snapshotId :: string
  plan :: "'n RollbackPlan option"
  result :: "RollbackResult option"
  error :: "string option"
  warnings :: "string list option"

text \<open>
  The calls that the rollback command makes on the Things client, with what it passes:
  \<^verbatim>\<open>cancelTodo(id)\<close>, and \<^verbatim>\<open>updateTodo({id, ...data})\<close> as the id and the data
  whose properties are spread after it.
\<close>

datatype 'n ClientCall = CancelTodo string | UpdateTodo string "'n JsValue"

text \<open>An awaited call resolves to a result or rejects with what was thrown.\<close>

datatype outcome = Resolved ExecutionResult | Rejected thrown

text \<open>
  The local variables of the loop of the rollback command, and the calls made on the
  client so far.
\<close>

record 'n Execution =
  itemsRolledBack :: nat
  itemsFailed :: nat
  errors :: "string list"
  dispatched :: "'n ClientCall list"

text \<open>
  The stored records. The row types of the repository and the converters
  \<^verbatim>\<open>rowToSnapshot\<close>, \<^verbatim>\<open>rowToCreatedItem\<close>, \<^verbatim>\<open>rowToModifiedItem\<close> and
  \<^verbatim>\<open>rowToStatusChange\<close> only rename the columns (and turn NULL into
  \<^verbatim>\<open>undefined\<close>), so a table holds the records themselves. \<open>id_snapshot\<close> and
  \<open>id_item\<close> are the two \<^verbatim>\<open>id\<close> fields.
\<close>

record Snapshot =
  id_snapshot :: string
  description :: string
  operationType :: OperationType
  command :: string
  createdAt :: string
  rolledBackAt :: "string option"
  status :: SnapshotStatus

record Item = ThingsRef +
  id_item :: nat
  snapshotId :: string

record SnapshotCreatedItem = Item +
  title :: string
  parentId :: "string option"

record SnapshotModifiedItem = Item +
  previousState :: string
  modifiedFields :: string

record SnapshotStatusChange = Item +
  previousStatus :: string
  newStatus :: string

record SnapshotDetails = Snapshot +
  createdItems :: "SnapshotCreatedItem list"
  modifiedItems :: "SnapshotModifiedItem list"
  statusChanges :: "SnapshotStatusChange list"

section \<open>The store (src/src/db/snapshot-repo.ts, which also holds db/connection.ts and db/migrations.ts)\<close>

text \<open>
  The four tables of the schema, each as the list of its rows in the order of insertion.
  A database is its tables and, while a transaction is open, the tables as they were at
  \<^verbatim>\<open>BEGIN TRANSACTION\<close>.
\<close>

record Tables =
  snapshots :: "Snapshot list"
  snapshot_created :: "SnapshotCreatedItem list"
  snapshot_modified :: "SnapshotModifiedItem list"
  snapshot_status :: "SnapshotStatusChange list"

record Database =
  tables :: Tables
  txn :: "Tables option"

definition begin_transaction :: "Database \<Rightarrow> thrown + Database" where
  "begin_transaction db =
     (case txn db of
        Some _ \<Rightarrow> Inl (SQLiteError ''cannot start a transaction within a transaction'')
      | None \<Rightarrow> Inr (db\<lparr>txn := Some (tables db)\<rparr>))"

definition commit :: "Database \<Rightarrow> thrown + Database" where
  "commit db =
     (case txn db of
        None \<Rightarrow> Inl (SQLiteError ''cannot commit - no transaction is active'')
      | Some _ \<Rightarrow> Inr (db\<lparr>txn := None\<rparr>))"

definition rollback :: "Database \<Rightarrow> thrown + Database" where
  "rollback db =
     (case txn db of
        None \<Rightarrow> Inl (SQLiteError ''cannot rollback - no transaction is active'')
      | Some saved \<Rightarrow> Inr (db\<lparr>tables := saved, txn := None\<rparr>))"

text \<open>
  \<^verbatim>\<open>withTransaction(db, fn)\<close>: \<^verbatim>\<open>BEGIN TRANSACTION\<close> is outside the
  \<^verbatim>\<open>try\<close>; \<^verbatim>\<open>fn()\<close> and \<^verbatim>\<open>COMMIT\<close> are inside it; the handler runs
  \<^verbatim>\<open>ROLLBACK\<close> and throws the error again (or the error of \<^verbatim>\<open>ROLLBACK\<close>, when
  that statement fails).
\<close>

definition withTransaction ::
  "Database \<Rightarrow> (Database \<Rightarrow> (thrown + 'a) \<times> Database) \<Rightarrow> (thrown + 'a) \<times> Database" where
  "withTransaction db fn =
     (case begin_transaction db of
        Inl e \<Rightarrow> (Inl e, db)
      | Inr db1 \<Rightarrow>
          (case fn db1 of
             (Inr r, db2) \<Rightarrow>
               (case commit db2 of
                  Inr db3 \<Rightarrow> (Inr r, db3)
                | Inl e \<Rightarrow>
                    (case rollback db2 of
                       Inl e2 \<Rightarrow> (Inl e2, db2)
                     | Inr db3 \<Rightarrow> (Inl e, db3)))
           | (Inl e, db2) \<Rightarrow>
               (case rollback db2 of
                  Inl e2 \<Rightarrow> (Inl e2, db2)
                | Inr db3 \<Rightarrow> (Inl e, db3))))"

definition getSnapshot :: "Database \<Rightarrow> string \<Rightarrow> Snapshot option" where
  "getSnapshot db i = find (\<lambda>row. id_snapshot row = i) (snapshots (tables db))"

text \<open>
  \<^verbatim>\<open>createSnapshot(input, id?)\<close>. \<open>generated\<close> is what
  \<^verbatim>\<open>generateSnapshotId()\<close> returns (a clock reading and random digits) and \<open>now\<close>
  what \<^verbatim>\<open>datetime('now')\<close> gives as default of \<^verbatim>\<open>created_at\<close>. The primary key
  rejects an id that a row already has. The result is the row read back; the
  \<^verbatim>\<open>!\<close> of the source does nothing at run time, so the result is an option.
\<close>

definition createSnapshot ::
  "string \<Rightarrow> string \<Rightarrow> CreateSnapshotInput \<Rightarrow> string option \<Rightarrow> Database
     \<Rightarrow> (thrown + Snapshot option) \<times> Database" where
  "createSnapshot generated now input i db =
     (let snapshotId = (case i of Some given \<Rightarrow> given | None \<Rightarrow> generated)
      in case getSnapshot db snapshotId of
           Some _ \<Rightarrow> (Inl (SQLiteError ''UNIQUE constraint failed: snapshots.id''), db)
         | None \<Rightarrow>
             (let row = \<lparr>id_snapshot = snapshotId,
                         description = CreateSnapshotInput.description input,
                         operationType = CreateSnapshotInput.operationType input,
                         command = CreateSnapshotInput.command input,
                         createdAt = now, rolledBackAt = None, status = Active\<rparr>;
                  db1 = db\<lparr>tables := (tables db)\<lparr>snapshots := snapshots (tables db) @ [row]\<rparr>\<rparr>
              in (Inr (getSnapshot db1 snapshotId), db1)))"

text \<open>
  The rowid that an \<^verbatim>\<open>INTEGER PRIMARY KEY\<close> column gets when none is given: one more
  than the largest in the table.
\<close>

definition next_rowid :: "nat list \<Rightarrow> nat" where
  "next_rowid ids = Suc (fold max ids 0)"

definition foreign_key_failed :: thrown where
  "foreign_key_failed = SQLiteError ''FOREIGN KEY constraint failed''"

definition addSnapshotCreated ::
  "string \<Rightarrow> CreatedItemInput \<Rightarrow> Database \<Rightarrow> (thrown + unit) \<times> Database" where
  "addSnapshotCreated sid item db =
     (case getSnapshot db sid of
        None \<Rightarrow> (Inl foreign_key_failed, db)
      | Some _ \<Rightarrow>
          (let rows = snapshot_created (tables db);
               row = \<lparr>thingsId = thingsId item, itemType = itemType item,
                      id_item = next_rowid (map id_item rows), snapshotId = sid,
                      title = CreatedItemInput.title item,
                      parentId = CreatedItemInput.parentId item\<rparr>
           in (Inr (), db\<lparr>tables := (tables db)\<lparr>snapshot_created := rows @ [row]\<rparr>\<rparr>)))"

text \<open>
  In \<^verbatim>\<open>addSnapshotModified\<close> the two \<^verbatim>\<open>JSON.stringify\<close> calls are arguments of
  \<^verbatim>\<open>db.run\<close>: when one throws, no statement is run.
\<close>

definition addSnapshotModified ::
  "('n JsValue \<Rightarrow> string) \<Rightarrow> string \<Rightarrow> 'n ModifiedItemInput \<Rightarrow> Database
     \<Rightarrow> (thrown + unit) \<times> Database" where
  "addSnapshotModified render sid item db =
     (case JSON_stringify render (JsObject (ModifiedItemInput.previousState item)) of
        Inl e \<Rightarrow> (Inl e, db)
      | Inr previous_state \<Rightarrow>
          (case JSON_stringify render
                  (JsArray (map JsString (ModifiedItemInput.modifiedFields item))) of
             Inl e \<Rightarrow> (Inl e, db)
           | Inr modified_fields \<Rightarrow>
               (case getSnapshot db sid of
                  None \<Rightarrow> (Inl foreign_key_failed, db)
                | Some _ \<Rightarrow>
                    (let rows = snapshot_modified (tables db);
                         row = \<lparr>thingsId = thingsId item, itemType = itemType item,
                                id_item = next_rowid (map id_item rows), snapshotId = sid,
                                previousState = previous_state,
                                modifiedFields = modified_fields\<rparr>
                     in (Inr (),
                         db\<lparr>tables := (tables db)\<lparr>snapshot_modified := rows @ [row]\<rparr>\<rparr>)))))"

definition addSnapshotStatus ::
  "string \<Rightarrow> StatusChangeInput \<Rightarrow> Database \<Rightarrow> (thrown + unit) \<times> Database" where
  "addSnapshotStatus sid item db =
     (case getSnapshot db sid of
        None \<Rightarrow> (Inl foreign_key_failed, db)
      | Some _ \<Rightarrow>
          (let rows = snapshot_status (tables db);
               row = \<lparr>thingsId = thingsId item, itemType = itemType item,
                      id_item = next_rowid (map id_item rows), snapshotId = sid,
                      previousStatus = StatusChangeInput.previousStatus item,
                      newStatus = StatusChangeInput.newStatus item\<rparr>
           in (Inr (), db\<lparr>tables := (tables db)\<lparr>snapshot_status := rows @ [row]\<rparr>\<rparr>)))"

definition getSnapshotDetails :: "Database \<Rightarrow> string \<Rightarrow> SnapshotDetails option" where
  "getSnapshotDetails db i =
     (case getSnapshot db i of
        None \<Rightarrow> None
      | Some snapshot \<Rightarrow>
          Some \<lparr>id_snapshot = id_snapshot snapshot,
                description = description snapshot,
                operationType = operationType snapshot,
                command = command snapshot,
                createdAt = createdAt snapshot,
                rolledBackAt = rolledBackAt snapshot,
                status = status snapshot,
                createdItems =
                  filter (\<lambda>row. Item.snapshotId row = i) (snapshot_created (tables db)),
                modifiedItems =
                  filter (\<lambda>row. Item.snapshotId row = i) (snapshot_modified (tables db)),
                statusChanges =
                  filter (\<lambda>row. Item.snapshotId row = i) (snapshot_status (tables db))\<rparr>)"

text \<open>
  \<^verbatim>\<open>updateSnapshotStatus(id, status)\<close>; \<open>now\<close> is
  \<^verbatim>\<open>new Date().toISOString()\<close>. The \<^verbatim>\<open>UPDATE\<close> writes both columns of every row
  with the id.
\<close>

definition updateSnapshotStatus ::
  "string \<Rightarrow> string \<Rightarrow> SnapshotStatus \<Rightarrow> Database \<Rightarrow> Database" where
  "updateSnapshotStatus now i st db =
     (let rolledBackAt1 = (if st = RolledBack \<or> st = PartialRollback then Some now else None)
      in db\<lparr>tables := (tables db)\<lparr>snapshots :=
            map (\<lambda>row. if id_snapshot row = i
                        then row\<lparr>status := st, rolledBackAt := rolledBackAt1\<rparr>
                        else row)
                (snapshots (tables db))\<rparr>\<rparr>)"

text \<open>
  \<^verbatim>\<open>deleteSnapshot(id)\<close>: the parent row goes, and with it (\<^verbatim>\<open>ON DELETE CASCADE\<close>)
  the rows of the three child tables that refer to it. The result tells whether a row was
  deleted.
\<close>

definition deleteSnapshot :: "string \<Rightarrow> Database \<Rightarrow> bool \<times> Database" where
  "deleteSnapshot i db =
     (let t = tables db
      in (getSnapshot db i \<noteq> None,
          db\<lparr>tables := t\<lparr>
            snapshots := filter (\<lambda>row. id_snapshot row \<noteq> i) (snapshots t),
            snapshot_created := filter (\<lambda>row. Item.snapshotId row \<noteq> i) (snapshot_created t),
            snapshot_modified := filter (\<lambda>row. Item.snapshotId row \<noteq> i) (snapshot_modified t),
            snapshot_status := filter (\<lambda>row. Item.snapshotId row \<noteq> i) (snapshot_status t)\<rparr>\<rparr>))"

section \<open>The snapshot manager (src/src/services/snapshot-manager.ts)\<close>

text \<open>
  Each operation takes what the environment supplies (\<open>generated\<close>, the id of
  \<^verbatim>\<open>generateSnapshotId()\<close>, and \<open>now\<close>, the time of the insert) and the database, and
  returns the snapshot or what was thrown, with the database as the statements run so far
  have left it. \<^verbatim>\<open>snapshot.id\<close> on a missing snapshot is a \<^verbatim>\<open>TypeError\<close>.
\<close>

definition null_snapshot :: thrown where
  "null_snapshot = TypeError ''null is not an object''"

definition createAddSnapshot ::
  "string \<Rightarrow> string \<Rightarrow> AddSnapshotData \<Rightarrow> Database \<Rightarrow> (thrown + Snapshot) \<times> Database" where
  \<open>createAddSnapshot generated now d db =
     (case createSnapshot generated now
             \<lparr>CreateSnapshotInput.description =
                ''Added '' @ itemTypeText (itemType d) @ '' "'' @ CreatedItemInput.title d @ ''"'',
              operationType = Add,
              command = AddSnapshotData.command d\<rparr> None db of
        (Inl e, db1) \<Rightarrow> (Inl e, db1)
      | (Inr None, db1) \<Rightarrow> (Inl null_snapshot, db1)
      | (Inr (Some snapshot), db1) \<Rightarrow>
          (case addSnapshotCreated (id_snapshot snapshot)
                  \<lparr>thingsId = thingsId d, itemType = itemType d,
                   CreatedItemInput.title = CreatedItemInput.title d,
                   parentId = CreatedItemInput.parentId d\<rparr> db1 of
             (Inl e, db2) \<Rightarrow> (Inl e, db2)
           | (Inr _, db2) \<Rightarrow> (Inr snapshot, db2)))\<close>

definition createAddProjectSnapshot ::
  "string \<Rightarrow> string \<Rightarrow> AddSnapshotData \<Rightarrow> Database \<Rightarrow> (thrown + Snapshot) \<times> Database" where
  \<open>createAddProjectSnapshot generated now d db =
     (case createSnapshot generated now
             \<lparr>CreateSnapshotInput.description =
                ''Added project "'' @ CreatedItemInput.title d @ ''"'',
              operationType = AddProject,
              command = AddSnapshotData.command d\<rparr> None db of
        (Inl e, db1) \<Rightarrow> (Inl e, db1)
      | (Inr None, db1) \<Rightarrow> (Inl null_snapshot, db1)
      | (Inr (Some snapshot), db1) \<Rightarrow>
          (case addSnapshotCreated (id_snapshot snapshot)
                  \<lparr>thingsId = thingsId d, itemType = Project,
                   CreatedItemInput.title = CreatedItemInput.title d,
                   parentId = CreatedItemInput.parentId d\<rparr> db1 of
             (Inl e, db2) \<Rightarrow> (Inl e, db2)
           | (Inr _, db2) \<Rightarrow> (Inr snapshot, db2)))\<close>

definition createUpdateSnapshot ::
  "('n JsValue \<Rightarrow> string) \<Rightarrow> string \<Rightarrow> string \<Rightarrow> 'n UpdateSnapshotData \<Rightarrow> Database
     \<Rightarrow> (thrown + Snapshot) \<times> Database" where
  "createUpdateSnapshot render generated now d db =
     (case createSnapshot generated now
             \<lparr>CreateSnapshotInput.description =
                ''Updated '' @ itemTypeText (itemType d) @ '' '' @ thingsId d,
              operationType = Update,
              command = UpdateSnapshotData.command d\<rparr> None db of
        (Inl e, db1) \<Rightarrow> (Inl e, db1)
      | (Inr None, db1) \<Rightarrow> (Inl null_snapshot, db1)
      | (Inr (Some snapshot), db1) \<Rightarrow>
          (case addSnapshotModified render (id_snapshot snapshot)
                  \<lparr>thingsId = thingsId d, itemType = itemType d,
                   ModifiedItemInput.previousState = ModifiedItemInput.previousState d,
                   modifiedFields = ModifiedItemInput.modifiedFields d\<rparr> db1 of
             (Inl e, db2) \<Rightarrow> (Inl e, db2)
           | (Inr _, db2) \<Rightarrow> (Inr snapshot, db2)))"

definition createStatusChangeSnapshot ::
  "string \<Rightarrow> string \<Rightarrow> StatusChangeData \<Rightarrow> Database \<Rightarrow> (thrown + Snapshot) \<times> Database" where
  \<open>createStatusChangeSnapshot generated now d db =
     (let operationType1 =
            (if StatusChangeInput.newStatus d = ''completed'' then Complete else Cancel)
      in case createSnapshot generated now
                \<lparr>CreateSnapshotInput.description =
                   (if operationType1 = Complete then ''Completed'' else ''Canceled'')
                   @ '' '' @ itemTypeText (itemType d)
                   @ '' "'' @ StatusChangeData.title d @ ''"'',
                 operationType = operationType1,
                 command = StatusChangeData.command d\<rparr> None db of
           (Inl e, db1) \<Rightarrow> (Inl e, db1)
         | (Inr None, db1) \<Rightarrow> (Inl null_snapshot, db1)
         | (Inr (Some snapshot), db1) \<Rightarrow>
             (case addSnapshotStatus (id_snapshot snapshot)
                     \<lparr>thingsId = thingsId d, itemType = itemType d,
                      StatusChangeInput.previousStatus = StatusChangeInput.previousStatus d,
                      newStatus = StatusChangeInput.newStatus d\<rparr> db1 of
                (Inl e, db2) \<Rightarrow> (Inl e, db2)
              | (Inr _, db2) \<Rightarrow> (Inr snapshot, db2)))\<close>

text \<open>The three loops of \<^verbatim>\<open>createBulkSnapshot\<close>; an insert that throws ends the loop.\<close>

fun addCreatedItems ::
  "string \<Rightarrow> CreatedItemInput list \<Rightarrow> Database \<Rightarrow> (thrown + unit) \<times> Database" where
  "addCreatedItems sid [] db = (Inr (), db)"
| "addCreatedItems sid (item # items) db =
     (case addSnapshotCreated sid
             \<lparr>thingsId = thingsId item, itemType = itemType item,
              CreatedItemInput.title = CreatedItemInput.title item,
              parentId = CreatedItemInput.parentId item\<rparr> db of
        (Inl e, db1) \<Rightarrow> (Inl e, db1)
      | (Inr _, db1) \<Rightarrow> addCreatedItems sid items db1)"

fun addModifiedItems ::
  "('n JsValue \<Rightarrow> string) \<Rightarrow> string \<Rightarrow> 'n ModifiedItemInput list \<Rightarrow> Database
     \<Rightarrow> (thrown + unit) \<times> Database" where
  "addModifiedItems render sid [] db = (Inr (), db)"
| "addModifiedItems render sid (item # items) db =
     (case addSnapshotModified render sid
             \<lparr>thingsId = thingsId item, itemType = itemType item,
              ModifiedItemInput.previousState = ModifiedItemInput.previousState item,
              modifiedFields = ModifiedItemInput.modifiedFields item\<rparr> db of
        (Inl e, db1) \<Rightarrow> (Inl e, db1)
      | (Inr _, db1) \<Rightarrow> addModifiedItems render sid items db1)"

fun addStatusChanges ::
  "string \<Rightarrow> StatusChangeInput list \<Rightarrow> Database \<Rightarrow> (thrown + unit) \<times> Database" where
  "addStatusChanges sid [] db = (Inr (), db)"
| "addStatusChanges sid (item # items) db =
     (case addSnapshotStatus sid
             \<lparr>thingsId = thingsId item, itemType = itemType item,
              StatusChangeInput.previousStatus = StatusChangeInput.previousStatus item,
              newStatus = StatusChangeInput.newStatus item\<rparr> db of
        (Inl e, db1) \<Rightarrow> (Inl e, db1)
      | (Inr _, db1) \<Rightarrow> addStatusChanges sid items db1)"

definition createBulkSnapshot ::
  "('n JsValue \<Rightarrow> string) \<Rightarrow> string \<Rightarrow> string \<Rightarrow> 'n BulkSnapshotData \<Rightarrow> Database
     \<Rightarrow> (thrown + Snapshot) \<times> Database" where
  "createBulkSnapshot render generated now d db =
     (let itemCount = length (BulkSnapshotData.createdItems d)
                      + length (BulkSnapshotData.modifiedItems d)
                      + length (BulkSnapshotData.statusChanges d)
      in case createSnapshot generated now
                \<lparr>CreateSnapshotInput.description =
                   ''Bulk operation: '' @ decimal itemCount @ '' items'',
                 operationType = Json,
                 command = BulkSnapshotData.command d\<rparr> None db of
           (Inl e, db1) \<Rightarrow> (Inl e, db1)
         | (Inr None, db1) \<Rightarrow> (Inl null_snapshot, db1)
         | (Inr (Some snapshot), db1) \<Rightarrow>
             (case addCreatedItems (id_snapshot snapshot) (BulkSnapshotData.createdItems d) db1 of
                (Inl e, db2) \<Rightarrow> (Inl e, db2)
              | (Inr _, db2) \<Rightarrow>
                  (case addModifiedItems render (id_snapshot snapshot)
                          (BulkSnapshotData.modifiedItems d) db2 of
                     (Inl e, db3) \<Rightarrow> (Inl e, db3)
                   | (Inr _, db3) \<Rightarrow>
                       (case addStatusChanges (id_snapshot snapshot)
                               (BulkSnapshotData.statusChanges d) db3 of
                          (Inl e, db4) \<Rightarrow> (Inl e, db4)
                        | (Inr _, db4) \<Rightarrow> (Inr snapshot, db4)))))"

text \<open>
  The three loops of \<^verbatim>\<open>getRollbackPlan\<close>, each pushing onto the arrays built so far.
  \<^verbatim>\<open>JSON.parse\<close> may throw in the second.
\<close>

fun cancelActions ::
  "SnapshotCreatedItem list \<Rightarrow> 'n RollbackAction list \<Rightarrow> 'n RollbackAction list" where
  "cancelActions [] acts = acts"
| "cancelActions (item # items) acts =
     cancelActions items
       (acts @ [\<lparr>thingsId = thingsId item, itemType = itemType item,
                 action = Cancel_action, data = None\<rparr>])"

fun restoreActions ::
  "(string \<Rightarrow> string + 'n JsValue) \<Rightarrow> SnapshotModifiedItem list \<Rightarrow> 'n RollbackAction list
     \<Rightarrow> thrown + 'n RollbackAction list" where
  "restoreActions parse [] acts = Inr acts"
| "restoreActions parse (item # items) acts =
     (case JSON_parse parse (previousState item) of
        Inl e \<Rightarrow> Inl e
      | Inr previousState1 \<Rightarrow>
          restoreActions parse items
            (acts @ [\<lparr>thingsId = thingsId item, itemType = itemType item,
                      action = Restore_action, data = Some previousState1\<rparr>]))"

definition irreversible_warning :: "string \<Rightarrow> string" where
  "irreversible_warning tid =
     ''Item '' @ tid @ '' was canceled. Cancellation is irreversible in Things.''"

fun revertActions ::
  "SnapshotStatusChange list \<Rightarrow> 'n RollbackAction list \<times> string list
     \<Rightarrow> 'n RollbackAction list \<times> string list" where
  "revertActions [] (acts, warns) = (acts, warns)"
| "revertActions (item # items) (acts, warns) =
     (if newStatus item = ''canceled''
      then revertActions items (acts, warns @ [irreversible_warning (thingsId item)])
      else revertActions items
             (acts @ [\<lparr>thingsId = thingsId item, itemType = itemType item,
                       action = RevertStatus_action,
                       data = Some (JsObject [(''previousStatus'',
                                               JsString (previousStatus item))])\<rparr>],
              warns))"

definition getRollbackPlan ::
  "(string \<Rightarrow> string + 'n JsValue) \<Rightarrow> Database \<Rightarrow> string \<Rightarrow> thrown + 'n RollbackPlan option" where
  "getRollbackPlan parse db sid =
     (case getSnapshotDetails db sid of
        None \<Rightarrow> Inr None
      | Some details \<Rightarrow>
          if status details \<noteq> Active then Inr None
          else (case restoreActions parse (modifiedItems details)
                       (cancelActions (createdItems details) []) of
                  Inl e \<Rightarrow> Inl e
                | Inr acts \<Rightarrow>
                    (case revertActions (statusChanges details) (acts, []) of
                       (acts1, warns) \<Rightarrow>
                         Inr (Some \<lparr>RollbackPlan.snapshotId = id_snapshot details,
                                    operationType = operationType details,
                                    description = description details,
                                    actions = acts1,
                                    warnings = warns\<rparr>))))"

text \<open>
  \<^verbatim>\<open>markRolledBack\<close> takes one of the two outcomes of a rollback, as its parameter
  type says.
\<close>

datatype RollbackOutcome = Outcome_RolledBack | Outcome_PartialRollback

fun outcomeStatus :: "RollbackOutcome \<Rightarrow> SnapshotStatus" where
  "outcomeStatus Outcome_RolledBack = RolledBack"
| "outcomeStatus Outcome_PartialRollback = PartialRollback"

definition markRolledBack :: "string \<Rightarrow> string \<Rightarrow> RollbackOutcome \<Rightarrow> Database \<Rightarrow> Database" where
  "markRolledBack now sid st db = updateSnapshotStatus now sid (outcomeStatus st) db"

section \<open>The rollback command (src/src/commands/rollback.ts)\<close>

text \<open>
  The Things client and the application behind it are outside the repository's logic: a
  call is answered by \<open>things\<close>, a function of the calls made before and of the call
  itself. Every call made is appended to \<open>dispatched\<close>.
\<close>

definition dispatch ::
  "('n ClientCall list \<Rightarrow> 'n ClientCall \<Rightarrow> outcome) \<Rightarrow> 'n ClientCall \<Rightarrow> 'n Execution
     \<Rightarrow> outcome \<times> 'n Execution" where
  "dispatch things call ex =
     (things (dispatched ex) call, ex\<lparr>dispatched := dispatched ex @ [call]\<rparr>)"

text \<open>
  The end of the \<^verbatim>\<open>try\<close> block: \<^verbatim>\<open>if (result?.success) ... else ...\<close>, where
  \<open>None\<close> is a \<^verbatim>\<open>result\<close> that was never assigned.
\<close>

definition classify :: "string \<Rightarrow> ExecutionResult option \<Rightarrow> 'n Execution \<Rightarrow> 'n Execution" where
  "classify tid res ex =
     (case res of
        None \<Rightarrow>
          ex\<lparr>itemsFailed := itemsFailed ex + 1,
             errors := errors ex @ [''Failed to rollback '' @ tid]\<rparr>
      | Some r \<Rightarrow>
          if ExecutionResult.success r
          then ex\<lparr>itemsRolledBack := itemsRolledBack ex + 1\<rparr>
          else ex\<lparr>itemsFailed := itemsFailed ex + 1,
                  errors := errors ex @
                    [case ExecutionResult.error r of
                       Some m \<Rightarrow> m
                     | None \<Rightarrow> ''Failed to rollback '' @ tid]\<rparr>)"

text \<open>An awaited call: its result is classified, its rejection goes to the handler.\<close>

definition settle :: "string \<Rightarrow> outcome \<times> 'n Execution \<Rightarrow> 'n Execution" where
  "settle tid oe =
     (case oe of
        (Resolved r, ex) \<Rightarrow> classify tid (Some r) ex
      | (Rejected t, ex) \<Rightarrow>
          ex\<lparr>itemsFailed := itemsFailed ex + 1, errors := errors ex @ [catchMessage t]\<rparr>)"

text \<open>\<^verbatim>\<open>action.data?.previousStatus\<close>\<close>

definition previousStatusOf :: "'n JsValue option \<Rightarrow> 'n JsValue option" where
  "previousStatusOf d = (case d of None \<Rightarrow> None | Some v \<Rightarrow> getProp v ''previousStatus'')"

text \<open>The body of the loop over \<^verbatim>\<open>plan.actions\<close>.\<close>

definition executeAction ::
  "('n::zero ClientCall list \<Rightarrow> 'n ClientCall \<Rightarrow> outcome) \<Rightarrow> 'n RollbackAction \<Rightarrow> 'n Execution
     \<Rightarrow> 'n Execution" where
  "executeAction things a ex =
     (case action a of
        Cancel_action \<Rightarrow> settle (thingsId a) (dispatch things (CancelTodo (thingsId a)) ex)
      | Restore_action \<Rightarrow>
          (case data a of
             None \<Rightarrow> classify (thingsId a) None ex
           | Some d \<Rightarrow>
               if truthy d
               then settle (thingsId a) (dispatch things (UpdateTodo (thingsId a) d) ex)
               else classify (thingsId a) None ex)
      | RevertStatus_action \<Rightarrow>
          if previousStatusOf (data a) = Some (JsString ''open'')
          then ex\<lparr>errors := errors ex @
                     [''Cannot revert status for '' @ thingsId a
                      @ '' - status changes are difficult to reverse''],
                  itemsFailed := itemsFailed ex + 1\<rparr>
          else classify (thingsId a) None ex)"

fun executeActions ::
  "('n::zero ClientCall list \<Rightarrow> 'n ClientCall \<Rightarrow> outcome) \<Rightarrow> 'n RollbackAction list
     \<Rightarrow> 'n Execution \<Rightarrow> 'n Execution" where
  "executeActions things [] ex = ex"
| "executeActions things (a # rest) ex = executeActions things rest (executeAction things a ex)"

text \<open>
  \<^verbatim>\<open>rollbackCommand(snapshotId, options)\<close>. \<open>authToken\<close> is what
  \<^verbatim>\<open>getAuthToken()\<close> returns, \<open>db\<close> the open database, \<open>history\<close> the calls the
  client has made before, \<open>now\<close> the time that \<^verbatim>\<open>markRolledBack\<close> stamps. The result
  comes with the database and the calls as the command leaves them. The outer
  \<^verbatim>\<open>try\<close> turns what \<^verbatim>\<open>getRollbackPlan\<close> throws into an error result.
\<close>

definition failure :: "string \<Rightarrow> string \<Rightarrow> 'n RollbackCommandResult" where
  "failure sid message =
     \<lparr>RollbackCommandResult.success = False, snapshotId = sid, plan = None,
      result = None, error = Some message, warnings = None\<rparr>"

definition rollbackCommand ::
  "(string \<Rightarrow> string + 'n JsValue) \<Rightarrow> ('n::zero ClientCall list \<Rightarrow> 'n ClientCall \<Rightarrow> outcome)
     \<Rightarrow> string \<Rightarrow> string option \<Rightarrow> string \<Rightarrow> RollbackOptions \<Rightarrow> Database \<Rightarrow> 'n ClientCall list
     \<Rightarrow> 'n RollbackCommandResult \<times> Database \<times> 'n ClientCall list" where
  \<open>rollbackCommand parse things now authToken sid options db history =
     (if authToken = None \<or> authToken = Some []
      then (failure sid
              ''Authentication required. Run "things3 auth setup <token>" first.'',
            db, history)
      else
        (case getRollbackPlan parse db sid of
           Inl e \<Rightarrow> (failure sid (catchMessage e), db, history)
         | Inr None \<Rightarrow>
             (case getSnapshot db sid of
                None \<Rightarrow> (failure sid (''Snapshot not found: '' @ sid), db, history)
              | Some snapshot \<Rightarrow>
                  if status snapshot \<noteq> Active
                  then (failure sid (''Snapshot already rolled back: '' @ sid), db, history)
                  else (failure sid ''Cannot create rollback plan'', db, history))
         | Inr (Some p) \<Rightarrow>
             if RollbackOptions.dryRun options = Some True
             then (\<lparr>RollbackCommandResult.success = True, snapshotId = sid, plan = Some p,
                    result = None, error = None, warnings = Some (RollbackPlan.warnings p)\<rparr>,
                   db, history)
             else
               (let ex = executeActions things (RollbackPlan.actions p)
                           \<lparr>itemsRolledBack = 0, itemsFailed = 0, errors = [],
                            dispatched = history\<rparr>;
                    st = (if itemsFailed ex = 0 then Outcome_RolledBack
                          else Outcome_PartialRollback);
                    db1 = markRolledBack now sid st db
                in (\<lparr>RollbackCommandResult.success = (itemsFailed ex = 0),
                     snapshotId = sid, plan = Some p,
                     result = Some \<lparr>RollbackResult.success = (itemsFailed ex = 0),
                                    snapshotId = sid,
                                    itemsRolledBack = itemsRolledBack ex,
                                    itemsFailed = itemsFailed ex,
                                    errors = errors ex\<rparr>,
                     error = None, warnings = Some (RollbackPlan.warnings p)\<rparr>,
                    db1, dispatched ex))))\<close>

section \<open>The outcome of each action of a plan\<close>

text \<open>
  What the loop of \<^verbatim>\<open>rollbackCommand\<close> is to do with the action at index \<open>i\<close> of a
  plan, said of that action alone and apart from the loop: the theorems on the rollback
  command compare the loop with it. \<open>call_of\<close> is the call an action makes on the client:
  \<^verbatim>\<open>cancelTodo\<close> for a \<^verbatim>\<open>cancel\<close> action, \<^verbatim>\<open>updateTodo\<close> for a \<^verbatim>\<open>restore\<close>
  action that has data, none otherwise.
\<close>

definition call_of :: "'n::zero RollbackAction \<Rightarrow> 'n ClientCall option" where
  "call_of a =
     (case action a of
        Cancel_action \<Rightarrow> Some (CancelTodo (thingsId a))
      | Restore_action \<Rightarrow>
          (case data a of
             None \<Rightarrow> None
           | Some d \<Rightarrow> if truthy d then Some (UpdateTodo (thingsId a) d) else None)
      | RevertStatus_action \<Rightarrow> None)"

text \<open>
  The calls made when the action at index \<open>i\<close> is reached: those made before the
  rollback and those of the actions before it, whether they failed or not.
\<close>

definition calls_before ::
  "'n::zero ClientCall list \<Rightarrow> 'n RollbackAction list \<Rightarrow> nat \<Rightarrow> 'n ClientCall list" where
  "calls_before history acts i = history @ List.map_filter call_of (take i acts)"

text \<open>The answer of the client to the call of the action at index \<open>i\<close>, if it makes one.\<close>

definition answer ::
  "('n::zero ClientCall list \<Rightarrow> 'n ClientCall \<Rightarrow> outcome) \<Rightarrow> 'n ClientCall list
     \<Rightarrow> 'n RollbackAction list \<Rightarrow> nat \<Rightarrow> outcome option" where
  "answer things history acts i =
     map_option (things (calls_before history acts i)) (call_of (acts ! i))"

text \<open>
  An action is rolled back when the client resolves its call with a result whose
  \<^verbatim>\<open>success\<close> is set. It has failed when the call is rejected, when the call resolves
  without success, and when the action makes no call.
\<close>

definition succeeded ::
  "('n::zero ClientCall list \<Rightarrow> 'n ClientCall \<Rightarrow> outcome) \<Rightarrow> 'n ClientCall list
     \<Rightarrow> 'n RollbackAction list \<Rightarrow> nat \<Rightarrow> bool" where
  "succeeded things history acts i =
     (case answer things history acts i of
        Some (Resolved r) \<Rightarrow> ExecutionResult.success r
      | Some (Rejected t) \<Rightarrow> False
      | None \<Rightarrow> False)"

text \<open>
  The error message of a failed action: the message of the rejection; the \<^verbatim>\<open>error\<close> of
  the result, or the generic message when it has none; for an action that makes no call the
  generic message, but for a \<^verbatim>\<open>revert-status\<close> action whose data hold the previous
  status \<^verbatim>\<open>open\<close> the message that status changes are difficult to reverse.
\<close>

definition message_for :: "outcome option \<Rightarrow> 'n RollbackAction \<Rightarrow> string" where
  "message_for ans a =
     (case ans of
        Some (Resolved r) \<Rightarrow>
          (case ExecutionResult.error r of
             Some m \<Rightarrow> m
           | None \<Rightarrow> ''Failed to rollback '' @ thingsId a)
      | Some (Rejected t) \<Rightarrow> catchMessage t
      | None \<Rightarrow>
          (case (action a, data a) of
             (RevertStatus_action, Some (JsObject props)) \<Rightarrow>
               if map_of props ''previousStatus'' = Some (JsString ''open'')
               then ''Cannot revert status for '' @ thingsId a
                    @ '' - status changes are difficult to reverse''
               else ''Failed to rollback '' @ thingsId a
           | _ \<Rightarrow> ''Failed to rollback '' @ thingsId a))"

definition failure_message ::
  "('n::zero ClientCall list \<Rightarrow> 'n ClientCall \<Rightarrow> outcome) \<Rightarrow> 'n ClientCall list
     \<Rightarrow> 'n RollbackAction list \<Rightarrow> nat \<Rightarrow> string" where
  "failure_message things history acts i =
     message_for (answer things history acts i) (acts ! i)"

section \<open>Examples\<close>

text \<open>
  \<open>empty_Database\<close> is a database as \<^verbatim>\<open>runMigrations\<close> leaves a new file. The
  store of the examples holds one bulk snapshot with one created item, one modified item
  and two status changes, with the data of the snapshot manager tests
  (src/unnamed/part_001); \<open>example_details\<close> and \<open>example_plan\<close> are what
  \<^verbatim>\<open>getSnapshotDetails\<close> and \<^verbatim>\<open>getRollbackPlan\<close> give for it.
  \<open>example_parse\<close> and \<open>example_render\<close> are \<^verbatim>\<open>JSON.parse\<close> and the encoder of
  \<^verbatim>\<open>JSON.stringify\<close> on the texts of the examples; \<open>example_things\<close> is a client
  whose calls all succeed, \<open>example_failing_things\<close> one that rejects every
  \<^verbatim>\<open>cancelTodo\<close> and resolves every \<^verbatim>\<open>updateTodo\<close> without success;
  \<open>example_reopened_store\<close> holds a snapshot of one status change from
  \<^verbatim>\<open>completed\<close> to \<^verbatim>\<open>open\<close>; \<open>example_bulk\<close> is a bulk operation whose modified item holds
  a BigInt in its previous state.
\<close>

definition empty_Database :: Database where
  "empty_Database =
     \<lparr>tables = \<lparr>snapshots = [], snapshot_created = [], snapshot_modified = [],
                snapshot_status = []\<rparr>,
      txn = None\<rparr>"

definition example_parse :: "string \<Rightarrow> string + int JsValue" where
  \<open>example_parse text =
     (if text = ''{"title":"Old"}'' then Inr (JsObject [(''title'', JsString ''Old'')])
      else Inl ''JSON Parse error'')\<close>

definition example_snapshot :: Snapshot where
  "example_snapshot =
     \<lparr>id_snapshot = ''snap-1'', description = ''Bulk operation: 4 items'',
      operationType = Json, command = ''things3 json ...'',
      createdAt = ''2024-01-01 00:00:00'', rolledBackAt = None, status = Active\<rparr>"

definition example_store :: Database where
  \<open>example_store =
     \<lparr>tables =
        \<lparr>snapshots = [example_snapshot],
         snapshot_created =
           [\<lparr>thingsId = ''new-1'', itemType = ToDo, id_item = 1, snapshotId = ''snap-1'',
             title = ''New Task'', parentId = None\<rparr>],
         snapshot_modified =
           [\<lparr>thingsId = ''mod-1'', itemType = ToDo, id_item = 1, snapshotId = ''snap-1'',
             previousState = ''{"title":"Old"}'', modifiedFields = ''["title"]''\<rparr>],
         snapshot_status =
           [\<lparr>thingsId = ''status-1'', itemType = ToDo, id_item = 1, snapshotId = ''snap-1'',
             previousStatus = ''open'', newStatus = ''completed''\<rparr>,
            \<lparr>thingsId = ''status-2'', itemType = ToDo, id_item = 2, snapshotId = ''snap-1'',
             previousStatus = ''open'', newStatus = ''canceled''\<rparr>]\<rparr>,
      txn = None\<rparr>\<close>

definition example_details :: SnapshotDetails where
  \<open>example_details =
     \<lparr>id_snapshot = ''snap-1'', description = ''Bulk operation: 4 items'',
      operationType = Json, command = ''things3 json ...'',
      createdAt = ''2024-01-01 00:00:00'', rolledBackAt = None, status = Active,
      createdItems =
        [\<lparr>thingsId = ''new-1'', itemType = ToDo, id_item = 1, snapshotId = ''snap-1'',
          title = ''New Task'', parentId = None\<rparr>],
      modifiedItems =
        [\<lparr>thingsId = ''mod-1'', itemType = ToDo, id_item = 1, snapshotId = ''snap-1'',
          previousState = ''{"title":"Old"}'', modifiedFields = ''["title"]''\<rparr>],
      statusChanges =
        [\<lparr>thingsId = ''status-1'', itemType = ToDo, id_item = 1, snapshotId = ''snap-1'',
          previousStatus = ''open'', newStatus = ''completed''\<rparr>,
         \<lparr>thingsId = ''status-2'', itemType = ToDo, id_item = 2, snapshotId = ''snap-1'',
          previousStatus = ''open'', newStatus = ''canceled''\<rparr>]\<rparr>\<close>

definition example_plan :: "int RollbackPlan" where
  "example_plan =
     \<lparr>RollbackPlan.snapshotId = ''snap-1'',
      operationType = Json,
      description = ''Bulk operation: 4 items'',
      actions =
        [\<lparr>thingsId = ''new-1'', itemType = ToDo, action = Cancel_action, data = None\<rparr>,
         \<lparr>thingsId = ''mod-1'', itemType = ToDo, action = Restore_action,
          data = Some (JsObject [(''title'', JsString ''Old'')])\<rparr>,
         \<lparr>thingsId = ''status-1'', itemType = ToDo, action = RevertStatus_action,
          data = Some (JsObject [(''previousStatus'', JsString ''open'')])\<rparr>],
      warnings = [''Item status-2 was canceled. Cancellation is irreversible in Things.'']\<rparr>"

definition example_things :: "int ClientCall list \<Rightarrow> int ClientCall \<Rightarrow> outcome" where
  "example_things history call =
     Resolved \<lparr>ExecutionResult.success = True, url = ''things:///'', error = None,
               dryRun = None\<rparr>"

definition example_failing_things :: "int ClientCall list \<Rightarrow> int ClientCall \<Rightarrow> outcome" where
  "example_failing_things history call =
     (case call of
        CancelTodo _ \<Rightarrow> Rejected (GenericError ''boom'')
      | UpdateTodo _ _ \<Rightarrow>
          Resolved \<lparr>ExecutionResult.success = False, url = ''things:///update'',
                    error = Some ''Rate limit exceeded. Please wait 3 seconds.'',
                    dryRun = None\<rparr>)"

definition example_reopened_store :: Database where
  "example_reopened_store =
     \<lparr>tables =
        \<lparr>snapshots = [example_snapshot],
         snapshot_created = [],
         snapshot_modified = [],
         snapshot_status =
           [\<lparr>thingsId = ''st-1'', itemType = ToDo, id_item = 1, snapshotId = ''snap-1'',
             previousStatus = ''completed'', newStatus = ''open''\<rparr>]\<rparr>,
      txn = None\<rparr>"

definition example_render :: "int JsValue \<Rightarrow> string" where
  \<open>example_render v =
     (if v = JsObject [(''title'', JsString ''Old'')] then ''{"title":"Old"}''
      else if v = JsArray [JsString ''title''] then ''["title"]''
      else ''null'')\<close>

definition example_bulk :: "int BulkSnapshotData" where
  "example_bulk =
     \<lparr>BulkSnapshotData.command = ''things3 json ...'',
      createdItems =
        [\<lparr>thingsId = ''new-1'', itemType = ToDo, CreatedItemInput.title = ''New Task'',
          parentId = None\<rparr>],
      modifiedItems =
        [\<lparr>thingsId = ''mod-1'', itemType = ToDo,
          ModifiedItemInput.previousState = [(''count'', JsBigInt 1)],
          modifiedFields = [''count'']\<rparr>],
      statusChanges = []\<rparr>"

section \<open>Stores that the repository builds\<close>

text \<open>
  The databases that the statements of the repository make from an empty one: the inserts
  of \<^verbatim>\<open>createSnapshot\<close> and of the three \<^verbatim>\<open>addSnapshot...\<close> methods, the update
  of the status and the delete. (No operation of the application opens a transaction, and
  a database file edited by other means is not such a store.)
\<close>

inductive reachable :: "('n JsValue \<Rightarrow> string) \<Rightarrow> Database \<Rightarrow> bool"
  for render :: "'n JsValue \<Rightarrow> string" where
  new: "reachable render empty_Database"
| snapshot: "reachable render db \<Longrightarrow>
     reachable render (snd (createSnapshot generated now input i db))"
| created: "reachable render db \<Longrightarrow>
     reachable render (snd (addSnapshotCreated sid c db))"
| modified: "reachable render db \<Longrightarrow>
     reachable render (snd (addSnapshotModified render sid m db))"
| status_change: "reachable render db \<Longrightarrow>
     reachable render (snd (addSnapshotStatus sid s db))"
| updated: "reachable render db \<Longrightarrow>
     reachable render (updateSnapshotStatus now i st db)"
| deleted: "reachable render db \<Longrightarrow>
     reachable render (snd (deleteSnapshot i db))"

section \<open>Properties of the rate limiter\<close>

lemma cleanup_calls [simp]:
  "calls (cleanup now rl) = filter (\<lambda>t. now - windowMs rl < t) (calls rl)"
  "maxCalls (cleanup now rl) = maxCalls rl"
  "windowMs (cleanup now rl) = windowMs rl"
  by (simp_all add: cleanup_def Let_def)

lemma acquire_throws_iff:
  "isl (fst (acquire t1 t2 t3 rl)) \<longleftrightarrow>
     maxCalls rl \<le> int (length (filter (\<lambda>t. t1 - windowMs rl < t) (calls rl)))"
  by (simp add: acquire_def Let_def split: prod.splits)

lemma acquire_records:
  "\<not> maxCalls rl \<le> int (length (filter (\<lambda>t. t1 - windowMs rl < t) (calls rl))) \<Longrightarrow>
     acquire t1 t2 t3 rl =
       (Inr (), rl\<lparr>calls := filter (\<lambda>t. t1 - windowMs rl < t) (calls rl) @ [t2]\<rparr>)"
  by (simp add: acquire_def Let_def cleanup_def)

lemma cleanup_all_inside:
  "\<forall>c\<in>set (calls rl). now - windowMs rl < c \<Longrightarrow> cleanup now rl = rl"
  by (simp add: cleanup_def Let_def)

lemma cleanup_all_outside:
  "\<forall>c\<in>set (calls rl). c \<le> now - windowMs rl \<Longrightarrow> cleanup now rl = rl\<lparr>calls := []\<rparr>"
proof -
  assume a: "\<forall>c\<in>set (calls rl). c \<le> now - windowMs rl"
  have "filter (\<lambda>t. now - windowMs rl < t) (calls rl) = []"
    using a by (simp add: filter_empty_conv not_less)
  then show ?thesis by (simp add: cleanup_def Let_def)
qed

lemma acquire_loop_within_window:
  assumes "\<forall>t\<in>set ts. in_window T (windowMs rl) t"
    and "\<forall>c\<in>set (calls rl). T \<le> c"
    and "int (length (calls rl) + length ts) \<le> maxCalls rl"
  shows "acquire_loop ts rl = (Inr (), rl\<lparr>calls := calls rl @ map (\<lambda>t. fst (snd t)) ts\<rparr>)"
  using assms
proof (induction ts arbitrary: rl)
  case Nil
  then show ?case by simp
next
  case (Cons t ts)
  obtain t1 t2 t3 where t: "t = (t1, t2, t3)" by (cases t) auto
  from Cons.prems(1) t have w: "T \<le> t1" "t1 < T + windowMs rl" "T \<le> t2"
    by (simp_all add: in_window_def)
  have inside: "\<forall>c\<in>set (calls rl). t1 - windowMs rl < c"
    using Cons.prems(2) w by fastforce
  have keep: "filter (\<lambda>c. t1 - windowMs rl < c) (calls rl) = calls rl"
    using inside by simp
  have room: "\<not> maxCalls rl \<le> int (length (filter (\<lambda>c. t1 - windowMs rl < c) (calls rl)))"
    using Cons.prems(3) keep by simp
  let ?rl1 = "rl\<lparr>calls := calls rl @ [t2]\<rparr>"
  have step: "acquire t1 t2 t3 rl = (Inr (), ?rl1)"
    using acquire_records [OF room] keep by simp
  have "acquire_loop ts ?rl1 = (Inr (), ?rl1\<lparr>calls := calls ?rl1 @ map (\<lambda>t. fst (snd t)) ts\<rparr>)"
  proof (rule Cons.IH)
    show "\<forall>t\<in>set ts. in_window T (windowMs ?rl1) t" using Cons.prems(1) by simp
    show "\<forall>c\<in>set (calls ?rl1). T \<le> c" using Cons.prems(2) w by simp
    show "int (length (calls ?rl1) + length ts) \<le> maxCalls ?rl1" using Cons.prems(3) by simp
  qed
  then show ?case using step t by simp
qed

lemma default_fields [simp]:
  "maxCalls default_RateLimiter = 250"
  "windowMs default_RateLimiter = 10000"
  "calls default_RateLimiter = []"
  by (simp_all add: default_RateLimiter_def new_RateLimiter_def RATE_LIMIT_MAX_CALLS_def
      RATE_LIMIT_WINDOW_MS_def)

lemma default_scenario:
  assumes len: "length ts = 250"
    and win: "\<forall>t\<in>set ts. in_window T RATE_LIMIT_WINDOW_MS t"
    and next_call: "in_window T RATE_LIMIT_WINDOW_MS (a1, a2, a3)"
    and check: "T \<le> b" "b < T + RATE_LIMIT_WINDOW_MS"
    and later: "\<forall>t\<in>set ts. fst (snd t) \<le> c1 - RATE_LIMIT_WINDOW_MS"
  shows "acquire_loop ts default_RateLimiter =
           (Inr (), default_RateLimiter\<lparr>calls := map (\<lambda>t. fst (snd t)) ts\<rparr>)"
    and "isl (fst (acquire a1 a2 a3 (snd (acquire_loop ts default_RateLimiter))))"
    and "fst (canAcquire b (snd (acquire a1 a2 a3 (snd (acquire_loop ts default_RateLimiter)))))
           = False"
    and "canAcquire c1
           (snd (canAcquire b (snd (acquire a1 a2 a3 (snd (acquire_loop ts default_RateLimiter))))))
           = (True, default_RateLimiter)"
    and "acquire c1 c2 c3
           (snd (canAcquire b (snd (acquire a1 a2 a3 (snd (acquire_loop ts default_RateLimiter))))))
           = (Inr (), default_RateLimiter\<lparr>calls := [c2]\<rparr>)"
proof -
  let ?stamps = "map (\<lambda>t. fst (snd t)) ts"
  let ?full = "default_RateLimiter\<lparr>calls := ?stamps\<rparr>"
  have W: "RATE_LIMIT_WINDOW_MS = 10000" by (simp add: RATE_LIMIT_WINDOW_MS_def)
  show loop: "acquire_loop ts default_RateLimiter = (Inr (), ?full)"
    using acquire_loop_within_window [of ts T default_RateLimiter] len win
    by (simp add: W)
  have stamps_ge: "\<forall>c\<in>set ?stamps. T \<le> c"
    using win by (auto simp add: in_window_def)
  have a: "T \<le> a1" "a1 < T + 10000" "T \<le> a2" "a2 < T + 10000"
    using next_call by (simp_all add: in_window_def W)
  have keep_a1: "filter (\<lambda>t. a1 - 10000 < t) ?stamps = ?stamps"
    using stamps_ge a by (auto simp add: filter_id_conv)
  have keep_a2: "filter (\<lambda>t. a2 - 10000 < t) ?stamps = ?stamps"
    using stamps_ge a by (auto simp add: filter_id_conv)
  have keep_b: "filter (\<lambda>t. b - 10000 < t) ?stamps = ?stamps"
    using stamps_ge check by (auto simp add: filter_id_conv W)
  have c1a: "cleanup a1 ?full = ?full"
    using keep_a1 by (simp add: cleanup_def Let_def)
  have c2a: "cleanup a2 ?full = ?full"
    using keep_a2 by (simp add: cleanup_def Let_def)
  have cb: "cleanup b ?full = ?full"
    using keep_b by (simp add: cleanup_def Let_def)
  have fail: "acquire a1 a2 a3 ?full =
      (Inl (RateLimitExceeded 250 10000 (fst (getWaitTime a2 a3 ?full))), ?full)"
    using len c1a c2a by (simp add: acquire_def getWaitTime_def Let_def split: list.splits)
  show "isl (fst (acquire a1 a2 a3 (snd (acquire_loop ts default_RateLimiter))))"
    using loop fail by simp
  have can: "canAcquire b ?full = (False, ?full)"
    using len cb by (simp add: canAcquire_def Let_def)
  show "fst (canAcquire b (snd (acquire a1 a2 a3 (snd (acquire_loop ts default_RateLimiter)))))
           = False"
    using loop fail can by simp
  have out: "\<forall>c\<in>set (calls ?full). c \<le> c1 - windowMs ?full"
    using later by (simp add: W)
  have gone: "cleanup c1 ?full = default_RateLimiter"
    using cleanup_all_outside [OF out]
    by (simp add: default_RateLimiter_def new_RateLimiter_def)
  show "canAcquire c1
           (snd (canAcquire b (snd (acquire a1 a2 a3 (snd (acquire_loop ts default_RateLimiter))))))
           = (True, default_RateLimiter)"
    using loop fail can gone by (simp add: canAcquire_def Let_def)
  show "acquire c1 c2 c3
           (snd (canAcquire b (snd (acquire a1 a2 a3 (snd (acquire_loop ts default_RateLimiter))))))
           = (Inr (), default_RateLimiter\<lparr>calls := [c2]\<rparr>)"
    using loop fail can gone by (simp add: acquire_def Let_def)
qed

text \<open>
  Claim C7. \<^verbatim>\<open>acquire\<close> throws exactly when the timestamps that are still inside the
  trailing window (those later than the clock reading of its \<^verbatim>\<open>cleanup\<close> minus
  \<^verbatim>\<open>windowMs\<close>) number \<^verbatim>\<open>maxCalls\<close> or more; otherwise it keeps those timestamps
  and records exactly one new one. With the default settings, 250 calls whose clock
  readings lie in one window of 10000 ms all succeed; the 251st call in that window throws
  and \<^verbatim>\<open>canAcquire\<close> is then false; once every recorded timestamp is outside the
  window, \<^verbatim>\<open>canAcquire\<close> is true again, the limiter is in its initial state, and
  \<^verbatim>\<open>acquire\<close> succeeds as it does on a new limiter.
\<close>

theorem acquire_capacity:
  "(isl (fst (acquire t1 t2 t3 rl)) \<longleftrightarrow>
      maxCalls rl \<le> int (length (filter (\<lambda>t. t1 - windowMs rl < t) (calls rl))))
   \<and> (\<not> isl (fst (acquire t1 t2 t3 rl)) \<longrightarrow>
        acquire t1 t2 t3 rl =
          (Inr (), rl\<lparr>calls := filter (\<lambda>t. t1 - windowMs rl < t) (calls rl) @ [t2]\<rparr>))
   \<and> (length ts = 250
        \<and> (\<forall>t\<in>set ts. in_window T RATE_LIMIT_WINDOW_MS t)
        \<and> in_window T RATE_LIMIT_WINDOW_MS (a1, a2, a3)
        \<and> T \<le> b \<and> b < T + RATE_LIMIT_WINDOW_MS
        \<and> (\<forall>t\<in>set ts. fst (snd t) \<le> c1 - RATE_LIMIT_WINDOW_MS)
      \<longrightarrow>
        acquire_loop ts default_RateLimiter =
          (Inr (), default_RateLimiter\<lparr>calls := map (\<lambda>t. fst (snd t)) ts\<rparr>)
        \<and> isl (fst (acquire a1 a2 a3 (snd (acquire_loop ts default_RateLimiter))))
        \<and> fst (canAcquire b
                 (snd (acquire a1 a2 a3 (snd (acquire_loop ts default_RateLimiter))))) = False
        \<and> canAcquire c1
             (snd (canAcquire b
                (snd (acquire a1 a2 a3 (snd (acquire_loop ts default_RateLimiter))))))
            = (True, default_RateLimiter)
        \<and> acquire c1 c2 c3
             (snd (canAcquire b
                (snd (acquire a1 a2 a3 (snd (acquire_loop ts default_RateLimiter))))))
            = (Inr (), default_RateLimiter\<lparr>calls := [c2]\<rparr>))"
proof (intro conjI impI)
  show "isl (fst (acquire t1 t2 t3 rl)) \<longleftrightarrow>
      maxCalls rl \<le> int (length (filter (\<lambda>t. t1 - windowMs rl < t) (calls rl)))"
    by (rule acquire_throws_iff)
next
  assume "\<not> isl (fst (acquire t1 t2 t3 rl))"
  then have "\<not> maxCalls rl \<le> int (length (filter (\<lambda>t. t1 - windowMs rl < t) (calls rl)))"
    by (simp add: acquire_throws_iff)
  then show "acquire t1 t2 t3 rl =
          (Inr (), rl\<lparr>calls := filter (\<lambda>t. t1 - windowMs rl < t) (calls rl) @ [t2]\<rparr>)"
    by (rule acquire_records)
next
  assume h: "length ts = 250
        \<and> (\<forall>t\<in>set ts. in_window T RATE_LIMIT_WINDOW_MS t)
        \<and> in_window T RATE_LIMIT_WINDOW_MS (a1, a2, a3)
        \<and> T \<le> b \<and> b < T + RATE_LIMIT_WINDOW_MS
        \<and> (\<forall>t\<in>set ts. fst (snd t) \<le> c1 - RATE_LIMIT_WINDOW_MS)"
  note s = default_scenario [of ts T a1 a2 a3 b c1]
  from h show "acquire_loop ts default_RateLimiter =
          (Inr (), default_RateLimiter\<lparr>calls := map (\<lambda>t. fst (snd t)) ts\<rparr>)"
    by (intro s(1)) simp_all
  from h show "isl (fst (acquire a1 a2 a3 (snd (acquire_loop ts default_RateLimiter))))"
    by (intro s(2)) simp_all
  from h show "fst (canAcquire b
                 (snd (acquire a1 a2 a3 (snd (acquire_loop ts default_RateLimiter))))) = False"
    by (intro s(3)) simp_all
  from h show "canAcquire c1
             (snd (canAcquire b
                (snd (acquire a1 a2 a3 (snd (acquire_loop ts default_RateLimiter))))))
            = (True, default_RateLimiter)"
    by (intro s(4)) simp_all
  from h show "acquire c1 c2 c3
             (snd (canAcquire b
                (snd (acquire a1 a2 a3 (snd (acquire_loop ts default_RateLimiter))))))
            = (Inr (), default_RateLimiter\<lparr>calls := [c2]\<rparr>)"
    by (intro s(5)) simp_all
qed

theorem acquire_capacity_witness:
  "(length (replicate 250 (0::int, 0::int, 0::int)) = 250
    \<and> list_all (in_window 0 RATE_LIMIT_WINDOW_MS) (replicate 250 (0::int, 0::int, 0::int))
    \<and> in_window 0 RATE_LIMIT_WINDOW_MS (0, 0, 0)
    \<and> (0::int) \<le> 0 \<and> 0 < 0 + RATE_LIMIT_WINDOW_MS
    \<and> list_all (\<lambda>t. fst (snd t) \<le> 10000 - RATE_LIMIT_WINDOW_MS)
          (replicate 250 (0::int, 0::int, 0::int)))
   \<and> (acquire_loop (replicate 250 (0::int, 0::int, 0::int)) default_RateLimiter =
          (Inr (), default_RateLimiter\<lparr>calls := map (\<lambda>t. fst (snd t)) (replicate 250 (0::int, 0::int, 0::int))\<rparr>)
        \<and> isl (fst (acquire 0 0 0
                      (snd (acquire_loop (replicate 250 (0::int, 0::int, 0::int)) default_RateLimiter))))
        \<and> fst (canAcquire 0
                 (snd (acquire 0 0 0
                         (snd (acquire_loop (replicate 250 (0::int, 0::int, 0::int)) default_RateLimiter)))))
            = False
        \<and> canAcquire 10000
             (snd (canAcquire 0
                (snd (acquire 0 0 0
                        (snd (acquire_loop (replicate 250 (0::int, 0::int, 0::int)) default_RateLimiter))))))
            = (True, default_RateLimiter)
        \<and> acquire 10000 10001 10002
             (snd (canAcquire 0
                (snd (acquire 0 0 0
                        (snd (acquire_loop (replicate 250 (0::int, 0::int, 0::int)) default_RateLimiter))))))
            = (Inr (), default_RateLimiter\<lparr>calls := [10001]\<rparr>))"
  (is "?H \<and> ?C")
proof -
  have h': "length (replicate 250 (0::int, 0::int, 0::int)) = 250
      \<and> (\<forall>t\<in>set (replicate 250 (0::int, 0::int, 0::int)). in_window 0 RATE_LIMIT_WINDOW_MS t)
      \<and> in_window 0 RATE_LIMIT_WINDOW_MS (0, 0, 0)
      \<and> (0::int) \<le> 0 \<and> 0 < 0 + RATE_LIMIT_WINDOW_MS
      \<and> (\<forall>t\<in>set (replicate 250 (0::int, 0::int, 0::int)).
            fst (snd t) \<le> 10000 - RATE_LIMIT_WINDOW_MS)" (is ?H')
    by (simp add: in_window_def RATE_LIMIT_WINDOW_MS_def)
  have h: ?H
    by (simp add: list_all_iff in_window_def RATE_LIMIT_WINDOW_MS_def)
  have "?H' \<longrightarrow> ?C"
    by (rule conjunct2 [OF conjunct2 [OF acquire_capacity
          [of 0 0 0 default_RateLimiter "replicate 250 (0::int, 0::int, 0::int)" 0 0 0 0 0 10000 10001 10002]]])
  with h h' show ?thesis by blast
qed

section \<open>Properties of the store and the planner\<close>

lemma find_map_update:
  assumes "\<And>row. id_snapshot (f row) = id_snapshot row"
  shows "find (\<lambda>row. id_snapshot row = j)
           (map (\<lambda>row. if id_snapshot row = i then f row else row) rows)
         = (if j = i then map_option f (find (\<lambda>row. id_snapshot row = i) rows)
            else find (\<lambda>row. id_snapshot row = j) rows)"
  using assms by (induction rows) auto

lemma getSnapshot_updateSnapshotStatus:
  "getSnapshot (updateSnapshotStatus now i st db) j =
     (if j = i
      then map_option
             (\<lambda>row. row\<lparr>status := st,
                         rolledBackAt := (if st = RolledBack \<or> st = PartialRollback
                                          then Some now else None)\<rparr>)
             (getSnapshot db i)
      else getSnapshot db j)"
  unfolding getSnapshot_def updateSnapshotStatus_def Let_def
  by (simp add: find_map_update)

lemma getSnapshotDetails_None_iff:
  "getSnapshotDetails db i = None \<longleftrightarrow> getSnapshot db i = None"
  by (simp add: getSnapshotDetails_def split: option.splits)

lemma getSnapshotDetails_status:
  "getSnapshotDetails db i = Some details \<Longrightarrow>
     \<exists>s. getSnapshot db i = Some s \<and> status details = status s
       \<and> id_snapshot details = id_snapshot s"
  by (auto simp add: getSnapshotDetails_def split: option.splits)

lemma getRollbackPlan_null_iff:
  "getRollbackPlan parse db i = Inr None \<longleftrightarrow>
     (case getSnapshot db i of None \<Rightarrow> True | Some s \<Rightarrow> status s \<noteq> Active)"
  by (auto simp add: getRollbackPlan_def getSnapshotDetails_def
      split: option.splits sum.splits prod.splits)

lemma cancelActions_eq:
  "cancelActions items acts =
     acts @ map (\<lambda>item. \<lparr>thingsId = thingsId item, itemType = itemType item,
                           action = Cancel_action, data = None\<rparr>) items"
  by (induction items arbitrary: acts) simp_all

lemma restoreActions_eq:
  "map (\<lambda>item. parse (previousState item)) items = map Inr payloads \<Longrightarrow>
   restoreActions parse items acts =
     Inr (acts @ map (\<lambda>(item, v). \<lparr>thingsId = thingsId item, itemType = itemType item,
                                     action = Restore_action, data = Some v\<rparr>)
                   (zip items payloads))"
proof (induction items arbitrary: acts payloads)
  case Nil
  then show ?case by simp
next
  case (Cons item items)
  then obtain v vs where p: "payloads = v # vs" by (cases payloads) auto
  with Cons.prems have "parse (previousState item) = Inr v"
    and "map (\<lambda>item. parse (previousState item)) items = map Inr vs" by simp_all
  then show ?case using Cons.IH [of vs] p by (simp add: JSON_parse_def)
qed

lemma restoreActions_length:
  "restoreActions parse items acts = Inr acts1 \<Longrightarrow> length acts1 = length acts + length items"
proof (induction items arbitrary: acts)
  case Nil
  then show ?case by simp
next
  case (Cons item items)
  then show ?case by (auto split: sum.splits)
qed

lemma revertActions_eq:
  "revertActions items (acts, warns) =
     (acts @ map (\<lambda>item. \<lparr>thingsId = thingsId item, itemType = itemType item,
                            action = RevertStatus_action,
                            data = Some (JsObject [(''previousStatus'',
                                                    JsString (previousStatus item))])\<rparr>)
               (filter (\<lambda>item. newStatus item \<noteq> ''canceled'') items),
      warns @ map (\<lambda>item. irreversible_warning (thingsId item))
                (filter (\<lambda>item. newStatus item = ''canceled'') items))"
  by (induction items arbitrary: acts warns) simp_all

lemma getSnapshotDetails_fields:
  "getSnapshotDetails db i = Some details \<Longrightarrow>
     createdItems details = filter (\<lambda>row. Item.snapshotId row = i) (snapshot_created (tables db))
     \<and> modifiedItems details = filter (\<lambda>row. Item.snapshotId row = i) (snapshot_modified (tables db))
     \<and> statusChanges details = filter (\<lambda>row. Item.snapshotId row = i) (snapshot_status (tables db))"
  by (auto simp add: getSnapshotDetails_def split: option.splits)


lemma example_getSnapshotDetails:
  "getSnapshotDetails example_store ''snap-1'' = Some example_details"
  by (simp add: getSnapshotDetails_def getSnapshot_def example_store_def example_snapshot_def
      example_details_def)

lemma example_getSnapshot [simp]: "getSnapshot example_store ''snap-1'' = Some example_snapshot"
  by (simp add: getSnapshot_def example_store_def example_snapshot_def)

lemma example_getRollbackPlan:
  "getRollbackPlan example_parse example_store ''snap-1'' = Inr (Some example_plan)"
  by (simp add: getRollbackPlan_def example_getSnapshotDetails example_details_def
      example_parse_def JSON_parse_def irreversible_warning_def example_plan_def)

lemma example_rolled_back:
  "getSnapshot (markRolledBack ''2024-01-02T00:00:00.000Z'' ''snap-1'' Outcome_RolledBack
                  example_store) ''snap-1''
     = Some (example_snapshot\<lparr>status := RolledBack,
                               rolledBackAt := Some ''2024-01-02T00:00:00.000Z''\<rparr>)"
  by (simp add: markRolledBack_def getSnapshot_updateSnapshotStatus)

text \<open>
  In a store that the repository built, every stored previous state is a text that
  \<^verbatim>\<open>JSON.stringify\<close> returned. So when \<^verbatim>\<open>JSON.parse\<close> accepts every such text,
  the payloads of every snapshot parse: the hypothesis under which the plan of an active
  snapshot is characterised below.
\<close>

lemma reachable_payloads:
  "reachable render db \<Longrightarrow>
     \<forall>row\<in>set (snapshot_modified (tables db)). \<exists>v. previousState row = render v"
proof (induction rule: reachable.induct)
  case new
  then show ?case by (simp add: empty_Database_def)
next
  case (snapshot db generated now input i)
  then show ?case
    by (simp add: createSnapshot_def Let_def split: option.splits)
next
  case (created db sid c)
  then show ?case
    by (simp add: addSnapshotCreated_def Let_def split: option.splits)
next
  case (modified db sid m)
  then show ?case
    by (auto simp add: addSnapshotModified_def JSON_stringify_def Let_def
        split: option.splits sum.splits if_splits)
next
  case (status_change db sid s)
  then show ?case
    by (simp add: addSnapshotStatus_def Let_def split: option.splits)
next
  case (updated db now i st)
  then show ?case by (simp add: updateSnapshotStatus_def Let_def)
next
  case (deleted db i)
  then show ?case by (simp add: deleteSnapshot_def Let_def)
qed

lemma all_parse:
  "\<forall>x\<in>set xs. \<exists>w. f x = Inr w \<Longrightarrow> \<exists>ys. map f xs = map Inr ys"
proof (induction xs)
  case Nil
  then show ?case by simp
next
  case (Cons x xs)
  then obtain w ys where "f x = Inr w" and "map f xs = map Inr ys" by auto
  then have "map f (x # xs) = map Inr (w # ys)" by simp
  then show ?case by blast
qed

lemma reachable_payloads_parse:
  assumes "reachable render db"
    and "\<And>v. \<exists>w. parse (render v) = Inr w"
    and "getSnapshotDetails db sid = Some details"
  shows "\<exists>payloads. map (\<lambda>item. parse (previousState item)) (modifiedItems details)
           = map Inr payloads"
proof (rule all_parse)
  have m: "modifiedItems details =
      filter (\<lambda>row. Item.snapshotId row = sid) (snapshot_modified (tables db))"
    using getSnapshotDetails_fields [OF assms(3)] by simp
  show "\<forall>item\<in>set (modifiedItems details). \<exists>w. parse (previousState item) = Inr w"
  proof
    fix item
    assume "item \<in> set (modifiedItems details)"
    then have "item \<in> set (snapshot_modified (tables db))" using m by simp
    with reachable_payloads [OF assms(1)] obtain v where "previousState item = render v"
      by blast
    with assms(2) [of v] show "\<exists>w. parse (previousState item) = Inr w" by simp
  qed
qed



text \<open>
  Claim C3. \<^verbatim>\<open>getRollbackPlan(id)\<close> returns null exactly when no snapshot has the id or
  the stored status is not \<^verbatim>\<open>active\<close> (an active snapshot gives a plan, or the
  \<^verbatim>\<open>SyntaxError\<close> of a payload that does not parse, never null); after
  \<^verbatim>\<open>markRolledBack(id, 'rolled-back')\<close> it returns null.
\<close>

theorem getRollbackPlan_null:
  "(getRollbackPlan parse db i = Inr None \<longleftrightarrow>
      (case getSnapshot db i of None \<Rightarrow> True | Some s \<Rightarrow> status s \<noteq> Active))
   \<and> getRollbackPlan parse (markRolledBack now i Outcome_RolledBack db) i = Inr None"
  by (simp add: getRollbackPlan_null_iff markRolledBack_def getSnapshot_updateSnapshotStatus
      split: option.splits)

text \<open>
  Claim C1. For an active snapshot whose stored previous-state payloads parse (to
  \<open>payloads\<close>), \<^verbatim>\<open>getRollbackPlan\<close> returns the plan whose actions are one
  \<^verbatim>\<open>cancel\<close> per created-item row, then one \<^verbatim>\<open>restore\<close> per modified-item row with
  the parsed payload as its data, then one \<^verbatim>\<open>revert-status\<close> per status-change row
  whose new status is not \<^verbatim>\<open>canceled\<close>; each status-change row whose new status is
  \<^verbatim>\<open>canceled\<close> gives no action and one warning that the cancellation is irreversible.
  The rows of each kind are those of the snapshot in the order of the table, which is the
  order of insertion.
\<close>

theorem getRollbackPlan_active:
  assumes "getSnapshotDetails db sid = Some details"
    and "status details = Active"
    and "map (\<lambda>item. parse (previousState item)) (modifiedItems details) = map Inr payloads"
  shows "getRollbackPlan parse db sid =
           Inr (Some \<lparr>RollbackPlan.snapshotId = id_snapshot details,
                      operationType = operationType details,
                      description = description details,
                      actions =
                        map (\<lambda>item. \<lparr>thingsId = thingsId item, itemType = itemType item,
                                      action = Cancel_action, data = None\<rparr>)
                            (createdItems details)
                        @ map (\<lambda>(item, v). \<lparr>thingsId = thingsId item, itemType = itemType item,
                                             action = Restore_action, data = Some v\<rparr>)
                              (zip (modifiedItems details) payloads)
                        @ map (\<lambda>item. \<lparr>thingsId = thingsId item, itemType = itemType item,
                                        action = RevertStatus_action,
                                        data = Some (JsObject [(''previousStatus'',
                                                                JsString (previousStatus item))])\<rparr>)
                              (filter (\<lambda>item. newStatus item \<noteq> ''canceled'')
                                 (statusChanges details)),
                      warnings =
                        map (\<lambda>item. irreversible_warning (thingsId item))
                            (filter (\<lambda>item. newStatus item = ''canceled'')
                               (statusChanges details))\<rparr>)
         \<and> createdItems details =
             filter (\<lambda>row. Item.snapshotId row = sid) (snapshot_created (tables db))
         \<and> modifiedItems details =
             filter (\<lambda>row. Item.snapshotId row = sid) (snapshot_modified (tables db))
         \<and> statusChanges details =
             filter (\<lambda>row. Item.snapshotId row = sid) (snapshot_status (tables db))"
  using assms getSnapshotDetails_fields [OF assms(1)]
  by (simp add: getRollbackPlan_def cancelActions_eq restoreActions_eq revertActions_eq)

theorem getRollbackPlan_active_witness:
  "getRollbackPlan example_parse example_store ''snap-1'' =
     Inr (Some \<lparr>RollbackPlan.snapshotId = ''snap-1'',
                operationType = Json,
                description = ''Bulk operation: 4 items'',
                actions =
                  [\<lparr>thingsId = ''new-1'', itemType = ToDo, action = Cancel_action, data = None\<rparr>,
                   \<lparr>thingsId = ''mod-1'', itemType = ToDo, action = Restore_action,
                    data = Some (JsObject [(''title'', JsString ''Old'')])\<rparr>,
                   \<lparr>thingsId = ''status-1'', itemType = ToDo, action = RevertStatus_action,
                    data = Some (JsObject [(''previousStatus'', JsString ''open'')])\<rparr>],
                warnings =
                  [''Item status-2 was canceled. Cancellation is irreversible in Things.'']\<rparr>)"
proof -
  have a: "status example_details = Active"
    by (simp add: example_details_def)
  have p: "map (\<lambda>item. example_parse (previousState item)) (modifiedItems example_details)
           = map Inr [JsObject [(''title'', JsString ''Old'')]]"
    by (simp add: example_details_def example_parse_def)
  from getRollbackPlan_active [OF example_getSnapshotDetails a p] show ?thesis
    by (simp add: example_details_def irreversible_warning_def)
qed

text \<open>
  Claim C6, as amended. The number of actions of a rollback plan is the number of
  created-item rows plus the number of modified-item rows plus the number of status-change
  rows whose new status is not \<^verbatim>\<open>canceled\<close>; the status-change rows whose new status
  is \<^verbatim>\<open>canceled\<close> are counted by the warnings, so actions and warnings together number
  as many as the rows of the three kinds.
\<close>

theorem rollback_plan_size:
  assumes "getSnapshotDetails db sid = Some details"
    and "getRollbackPlan parse db sid = Inr (Some p)"
  shows "length (RollbackPlan.actions p) =
           length (createdItems details) + length (modifiedItems details)
           + length (filter (\<lambda>item. newStatus item \<noteq> ''canceled'') (statusChanges details))
         \<and> length (RollbackPlan.warnings p) =
           length (filter (\<lambda>item. newStatus item = ''canceled'') (statusChanges details))
         \<and> length (RollbackPlan.actions p) + length (RollbackPlan.warnings p) =
           length (createdItems details) + length (modifiedItems details)
           + length (statusChanges details)"
proof -
  from assms obtain acts where
    r: "restoreActions parse (modifiedItems details) (cancelActions (createdItems details) []) = Inr acts"
    and p: "revertActions (statusChanges details) (acts, []) = (RollbackPlan.actions p, RollbackPlan.warnings p)"
    by (auto simp add: getRollbackPlan_def split: if_splits sum.splits prod.splits)
  have n: "length acts = length (createdItems details) + length (modifiedItems details)"
    using restoreActions_length [OF r] by (simp add: cancelActions_eq)
  have a: "length (RollbackPlan.actions p) = length acts
      + length (filter (\<lambda>item. newStatus item \<noteq> ''canceled'') (statusChanges details))"
    and w: "length (RollbackPlan.warnings p) =
      length (filter (\<lambda>item. newStatus item = ''canceled'') (statusChanges details))"
  proof -
    have "RollbackPlan.actions p = fst (revertActions (statusChanges details) (acts, []))"
      and "RollbackPlan.warnings p = snd (revertActions (statusChanges details) (acts, []))"
      using p by simp_all
    then show "length (RollbackPlan.actions p) = length acts
      + length (filter (\<lambda>item. newStatus item \<noteq> ''canceled'') (statusChanges details))"
      and "length (RollbackPlan.warnings p) =
      length (filter (\<lambda>item. newStatus item = ''canceled'') (statusChanges details))"
      by (simp_all add: revertActions_eq)
  qed
  have s: "length (filter (\<lambda>item. newStatus item \<noteq> ''canceled'') (statusChanges details))
      + length (filter (\<lambda>item. newStatus item = ''canceled'') (statusChanges details))
      = length (statusChanges details)"
    using sum_length_filter_compl [of "\<lambda>item. newStatus item \<noteq> ''canceled''" "statusChanges details"]
    by simp
  show ?thesis using n a w s by simp
qed

theorem rollback_plan_size_witness:
  "getSnapshotDetails example_store ''snap-1'' = Some example_details
   \<and> getRollbackPlan example_parse example_store ''snap-1'' = Inr (Some example_plan)
   \<and> length (RollbackPlan.actions example_plan) = 3
   \<and> length (RollbackPlan.warnings example_plan) = 1
   \<and> length (createdItems example_details) + length (modifiedItems example_details)
       + length (filter (\<lambda>item. newStatus item \<noteq> ''canceled'') (statusChanges example_details))
      = 3"
  using rollback_plan_size [OF example_getSnapshotDetails example_getRollbackPlan]
    example_getSnapshotDetails example_getRollbackPlan
  by (simp add: example_plan_def example_details_def)

text \<open>
  The claim C6 as the specification words it fails on the example store: its snapshot has
  four child rows (one created, one modified, two status changes, one of them to
  \<^verbatim>\<open>canceled\<close>) and its plan has three actions.
\<close>

theorem rollback_plan_size_counterexample:
  "getSnapshotDetails example_store ''snap-1'' = Some example_details
   \<and> getRollbackPlan example_parse example_store ''snap-1'' = Inr (Some example_plan)
   \<and> length (RollbackPlan.actions example_plan) = 3
   \<and> length (createdItems example_details) + length (modifiedItems example_details)
       + length (statusChanges example_details) = 4"
  using example_getSnapshotDetails example_getRollbackPlan
  by (simp add: example_plan_def example_details_def)

text \<open>
  Two scenarios of the tests, run through the manager on the empty database: a status
  change to \<^verbatim>\<open>canceled\<close> gives a plan with no action and one warning; an update
  gives one \<^verbatim>\<open>restore\<close> action that carries the previous state.
\<close>

lemma canceled_scenario:
  \<open>getRollbackPlan example_parse
     (snd (createStatusChangeSnapshot ''snap-2'' ''2024-01-01 00:00:00''
             \<lparr>thingsId = ''things-123'', itemType = ToDo,
              StatusChangeInput.previousStatus = ''open'', newStatus = ''canceled'',
              StatusChangeData.title = ''Task to cancel'',
              command = ''things3 cancel things-123''\<rparr>
             empty_Database))
     ''snap-2''
   = Inr (Some \<lparr>RollbackPlan.snapshotId = ''snap-2'', operationType = Cancel,
                description = ''Canceled to-do "Task to cancel"'',
                actions = [],
                warnings =
                  [''Item things-123 was canceled. Cancellation is irreversible in Things.'']\<rparr>)\<close>
  by (simp add: createStatusChangeSnapshot_def createSnapshot_def addSnapshotStatus_def
      getSnapshot_def empty_Database_def next_rowid_def Let_def getRollbackPlan_def
      getSnapshotDetails_def irreversible_warning_def)

lemma update_scenario:
  "getRollbackPlan example_parse
     (snd (createUpdateSnapshot example_render ''snap-3'' ''2024-01-01 00:00:00''
             \<lparr>thingsId = ''things-123'', itemType = ToDo,
              ModifiedItemInput.previousState = [(''title'', JsString ''Old'')],
              modifiedFields = [''title''],
              UpdateSnapshotData.command = ''cmd''\<rparr>
             empty_Database))
     ''snap-3''
   = Inr (Some \<lparr>RollbackPlan.snapshotId = ''snap-3'', operationType = Update,
                description = ''Updated to-do things-123'',
                actions =
                  [\<lparr>thingsId = ''things-123'', itemType = ToDo, action = Restore_action,
                    data = Some (JsObject [(''title'', JsString ''Old'')])\<rparr>],
                warnings = []\<rparr>)"
  by (simp add: createUpdateSnapshot_def createSnapshot_def addSnapshotModified_def
      JSON_stringify_def JSON_parse_def example_render_def example_parse_def
      getSnapshot_def empty_Database_def next_rowid_def Let_def getRollbackPlan_def
      getSnapshotDetails_def)

section \<open>Properties of the rollback command\<close>

lemma classify_effect:
  "itemsRolledBack (classify tid res ex) + itemsFailed (classify tid res ex)
     = itemsRolledBack ex + itemsFailed ex + 1
   \<and> itemsFailed ex \<le> itemsFailed (classify tid res ex)
   \<and> length (errors (classify tid res ex)) + itemsFailed ex
     = length (errors ex) + itemsFailed (classify tid res ex)
   \<and> dispatched (classify tid res ex) = dispatched ex"
  by (simp add: classify_def split: option.splits)

lemma settle_effect:
  "itemsRolledBack (settle tid (out, ex)) + itemsFailed (settle tid (out, ex))
     = itemsRolledBack ex + itemsFailed ex + 1
   \<and> itemsFailed ex \<le> itemsFailed (settle tid (out, ex))
   \<and> length (errors (settle tid (out, ex))) + itemsFailed ex
     = length (errors ex) + itemsFailed (settle tid (out, ex))
   \<and> dispatched (settle tid (out, ex)) = dispatched ex"
  using classify_effect [of tid _ ex]
  by (cases out) (simp_all add: settle_def)

lemma executeAction_effect:
  "itemsRolledBack (executeAction things a ex) + itemsFailed (executeAction things a ex)
     = itemsRolledBack ex + itemsFailed ex + 1
   \<and> itemsFailed ex \<le> itemsFailed (executeAction things a ex)
   \<and> length (errors (executeAction things a ex)) + itemsFailed ex
     = length (errors ex) + itemsFailed (executeAction things a ex)
   \<and> dispatched (executeAction things a ex) =
       dispatched ex @
         (case action a of
            Cancel_action \<Rightarrow> [CancelTodo (thingsId a)]
          | Restore_action \<Rightarrow>
              (case data a of
                 None \<Rightarrow> []
               | Some d \<Rightarrow> if truthy d then [UpdateTodo (thingsId a) d] else [])
          | RevertStatus_action \<Rightarrow> [])"
proof (cases "action a")
  case Cancel_action
  then show ?thesis
    using settle_effect [of "thingsId a" _ "ex\<lparr>dispatched := dispatched ex @ [CancelTodo (thingsId a)]\<rparr>"]
    by (simp add: executeAction_def dispatch_def)
next
  case Restore_action
  show ?thesis
  proof (cases "data a")
    case None
    then show ?thesis
      using Restore_action classify_effect [of "thingsId a" None ex]
      by (simp add: executeAction_def)
  next
    case (Some d)
    show ?thesis
    proof (cases "truthy d")
      case True
      then show ?thesis
        using Restore_action Some
          settle_effect [of "thingsId a" _
            "ex\<lparr>dispatched := dispatched ex @ [UpdateTodo (thingsId a) d]\<rparr>"]
        by (simp add: executeAction_def dispatch_def)
    next
      case False
      then show ?thesis
        using Restore_action Some classify_effect [of "thingsId a" None ex]
        by (simp add: executeAction_def)
    qed
  qed
next
  case RevertStatus_action
  then show ?thesis
    using classify_effect [of "thingsId a" None ex]
    by (simp add: executeAction_def)
qed

lemma executeActions_effect:
  "itemsRolledBack (executeActions things acts ex) + itemsFailed (executeActions things acts ex)
     = itemsRolledBack ex + itemsFailed ex + length acts
   \<and> itemsFailed ex \<le> itemsFailed (executeActions things acts ex)
   \<and> length (errors (executeActions things acts ex)) + itemsFailed ex
     = length (errors ex) + itemsFailed (executeActions things acts ex)
   \<and> dispatched (executeActions things acts ex) =
       dispatched ex @
         concat (map (\<lambda>a. case action a of
                        Cancel_action \<Rightarrow> [CancelTodo (thingsId a)]
                      | Restore_action \<Rightarrow>
                          (case data a of
                             None \<Rightarrow> []
                           | Some d \<Rightarrow> if truthy d then [UpdateTodo (thingsId a) d] else [])
                      | RevertStatus_action \<Rightarrow> []) acts)"
proof (induction acts arbitrary: ex)
  case Nil
  then show ?case by simp
next
  case (Cons a acts)
  show ?case
    using Cons.IH [of "executeAction things a ex"] executeAction_effect [of things a ex]
    by simp
qed

lemma revert_action_fails:
  "action a = RevertStatus_action \<Longrightarrow>
     executeAction things a ex =
       ex\<lparr>itemsFailed := itemsFailed ex + 1,
          errors := errors ex @
            [if previousStatusOf (data a) = Some (JsString ''open'')
             then ''Cannot revert status for '' @ thingsId a
                  @ '' - status changes are difficult to reverse''
             else ''Failed to rollback '' @ thingsId a]\<rparr>"
  by (simp add: executeAction_def classify_def)

lemma executeActions_append:
  "executeActions things (xs @ ys) ex = executeActions things ys (executeActions things xs ex)"
  by (induction xs arbitrary: ex) simp_all

lemma revert_in_plan_fails:
  assumes "a \<in> set acts" and "action a = RevertStatus_action"
  shows "0 < itemsFailed (executeActions things acts ex)"
proof -
  from assms(1) obtain xs ys where s: "acts = xs @ a # ys"
    by (auto simp add: in_set_conv_decomp)
  let ?ex1 = "executeActions things xs ex"
  have "0 < itemsFailed (executeAction things a ?ex1)"
    using revert_action_fails [OF assms(2), of things ?ex1] by simp
  moreover have "itemsFailed (executeAction things a ?ex1)
      \<le> itemsFailed (executeActions things ys (executeAction things a ?ex1))"
    using executeActions_effect [of things ys "executeAction things a ?ex1"] by simp
  ultimately show ?thesis using s by (simp add: executeActions_append)
qed

lemma plan_needs_active:
  "getRollbackPlan parse db sid = Inr (Some p) \<Longrightarrow>
     \<exists>s. getSnapshot db sid = Some s \<and> status s = Active"
  by (auto simp add: getRollbackPlan_def getSnapshotDetails_def
      split: option.splits if_splits sum.splits prod.splits)

lemma rollbackCommand_run:
  assumes "authToken = Some token" "token \<noteq> []"
    and "getRollbackPlan parse db sid = Inr (Some p)"
    and "RollbackOptions.dryRun options \<noteq> Some True"
  shows "rollbackCommand parse things now authToken sid options db history =
     (let ex = executeActions things (RollbackPlan.actions p)
                 \<lparr>itemsRolledBack = 0, itemsFailed = 0, errors = [], dispatched = history\<rparr>
      in (\<lparr>RollbackCommandResult.success = (itemsFailed ex = 0),
           snapshotId = sid, plan = Some p,
           result = Some \<lparr>RollbackResult.success = (itemsFailed ex = 0),
                          snapshotId = sid,
                          itemsRolledBack = itemsRolledBack ex,
                          itemsFailed = itemsFailed ex,
                          errors = errors ex\<rparr>,
           error = None, warnings = Some (RollbackPlan.warnings p)\<rparr>,
          markRolledBack now sid
            (if itemsFailed ex = 0 then Outcome_RolledBack else Outcome_PartialRollback) db,
          dispatched ex))"
  using assms by (simp add: rollbackCommand_def Let_def)

lemma rollbackCommand_unchanged:
  "\<not> (\<exists>token p. authToken = Some token \<and> token \<noteq> []
         \<and> getRollbackPlan parse db sid = Inr (Some p)
         \<and> RollbackOptions.dryRun options \<noteq> Some True) \<Longrightarrow>
   snd (rollbackCommand parse things now authToken sid options db history) = (db, history)"
  by (auto simp add: rollbackCommand_def split: sum.splits option.splits)

lemma example_execution:
  "executeActions example_things (RollbackPlan.actions example_plan)
     \<lparr>itemsRolledBack = 0, itemsFailed = 0, errors = [], dispatched = []\<rparr>
   = \<lparr>itemsRolledBack = 2, itemsFailed = 1,
      errors = [''Cannot revert status for status-1 - status changes are difficult to reverse''],
      dispatched = [CancelTodo ''new-1'',
                    UpdateTodo ''mod-1'' (JsObject [(''title'', JsString ''Old'')])]\<rparr>"
  by (simp add: example_plan_def executeAction_def dispatch_def settle_def classify_def
      example_things_def previousStatusOf_def)

lemma calls_before_0 [simp]: "calls_before history acts 0 = history"
  by (simp add: calls_before_def)

lemma calls_before_Suc:
  "calls_before history (a # rest) (Suc i) =
     calls_before (history @ (case call_of a of None \<Rightarrow> [] | Some c \<Rightarrow> [c])) rest i"
  by (simp add: calls_before_def List.map_filter_simps split: option.splits)

lemma answer_0: "answer things history (a # rest) 0 = map_option (things history) (call_of a)"
  by (simp add: answer_def)

lemma answer_Suc:
  "answer things history (a # rest) (Suc i) =
     answer things (history @ (case call_of a of None \<Rightarrow> [] | Some c \<Rightarrow> [c])) rest i"
  by (simp add: answer_def calls_before_Suc)

lemma succeeded_Suc:
  "succeeded things history (a # rest) (Suc i) =
     succeeded things (history @ (case call_of a of None \<Rightarrow> [] | Some c \<Rightarrow> [c])) rest i"
  by (simp add: succeeded_def answer_Suc)

lemma failure_message_Suc:
  "failure_message things history (a # rest) (Suc i) =
     failure_message things (history @ (case call_of a of None \<Rightarrow> [] | Some c \<Rightarrow> [c])) rest i"
  by (simp add: failure_message_def answer_Suc)

lemma executeAction_no_call:
  assumes "call_of a = None"
  shows "executeAction things a ex =
     ex\<lparr>itemsFailed := itemsFailed ex + 1,
        errors := errors ex @ [failure_message things (dispatched ex) (a # rest) 0]\<rparr>"
proof (cases "action a")
  case Cancel_action
  with assms show ?thesis by (simp add: call_of_def)
next
  case Restore_action
  with assms show ?thesis
    by (cases "data a")
      (auto simp add: call_of_def executeAction_def classify_def failure_message_def message_for_def answer_0
        split: if_splits JsValue.splits)
next
  case RevertStatus_action
  show ?thesis
  proof (cases "data a")
    case None
    with RevertStatus_action assms show ?thesis
      by (simp add: executeAction_def classify_def failure_message_def message_for_def answer_0
          previousStatusOf_def)
  next
    case (Some d)
    with RevertStatus_action assms show ?thesis
      by (cases d)
        (simp_all add: executeAction_def classify_def failure_message_def message_for_def answer_0
          previousStatusOf_def)
  qed
qed

lemma executeAction_call:
  assumes "call_of a = Some c"
  shows "executeAction things a ex =
     (if succeeded things (dispatched ex) (a # rest) 0
      then ex\<lparr>itemsRolledBack := itemsRolledBack ex + 1, dispatched := dispatched ex @ [c]\<rparr>
      else ex\<lparr>itemsFailed := itemsFailed ex + 1,
              errors := errors ex @ [failure_message things (dispatched ex) (a # rest) 0],
              dispatched := dispatched ex @ [c]\<rparr>)"
proof -
  have run: "executeAction things a ex = settle (thingsId a) (dispatch things c ex)"
    using assms
    by (cases "action a"; cases "data a")
      (auto simp add: call_of_def executeAction_def split: if_splits)
  show ?thesis
  proof (cases "things (dispatched ex) c")
    case (Resolved r)
    then show ?thesis
      using assms run
      by (simp add: dispatch_def settle_def classify_def succeeded_def failure_message_def
          message_for_def answer_0 split: option.splits)
  next
    case (Rejected t)
    then show ?thesis
      using assms run
      by (simp add: dispatch_def settle_def succeeded_def failure_message_def message_for_def answer_0)
  qed
qed

lemma filter_upt_Suc:
  "filter P [0..<Suc n] = (if P 0 then [0] else []) @ map Suc (filter (\<lambda>i. P (Suc i)) [0..<n])"
proof -
  have "[0..<Suc n] = 0 # map Suc [0..<n]"
    by (simp add: upt_conv_Cons map_Suc_upt del: upt_Suc)
  then show ?thesis by (simp add: filter_map comp_def del: upt_Suc)
qed

lemma failure_message_comp:
  "failure_message things history (a # rest) \<circ> Suc =
     failure_message things (history @ (case call_of a of None \<Rightarrow> [] | Some c \<Rightarrow> [c])) rest"
  by (rule ext) (simp add: failure_message_Suc)

lemma executeActions_spec:
  "executeActions things acts ex =
     ex\<lparr>itemsRolledBack := itemsRolledBack ex
          + length (filter (succeeded things (dispatched ex) acts) [0..<length acts]),
        itemsFailed := itemsFailed ex
          + length (filter (\<lambda>i. \<not> succeeded things (dispatched ex) acts i) [0..<length acts]),
        errors := errors ex
          @ map (failure_message things (dispatched ex) acts)
              (filter (\<lambda>i. \<not> succeeded things (dispatched ex) acts i) [0..<length acts]),
        dispatched := calls_before (dispatched ex) acts (length acts)\<rparr>"
proof (induction acts arbitrary: ex)
  case Nil
  then show ?case by simp
next
  case (Cons a rest)
  let ?h = "dispatched ex"
  let ?h1 = "?h @ (case call_of a of None \<Rightarrow> [] | Some c \<Rightarrow> [c])"
  let ?ex1 = "executeAction things a ex"
  let ?n = "length rest"
  have ok: "filter (succeeded things ?h (a # rest)) [0..<Suc ?n] =
      (if succeeded things ?h (a # rest) 0 then [0] else [])
      @ map Suc (filter (succeeded things ?h1 rest) [0..<?n])"
    by (simp only: filter_upt_Suc succeeded_Suc)
  have bad: "filter (\<lambda>i. \<not> succeeded things ?h (a # rest) i) [0..<Suc ?n] =
      (if \<not> succeeded things ?h (a # rest) 0 then [0] else [])
      @ map Suc (filter (\<lambda>i. \<not> succeeded things ?h1 rest i) [0..<?n])"
    by (simp only: filter_upt_Suc succeeded_Suc)
  have msg: "map (failure_message things ?h (a # rest)) (map Suc xs) =
      map (failure_message things ?h1 rest) xs" for xs
    by (simp add: failure_message_Suc comp_def)
  have last: "calls_before ?h (a # rest) (Suc ?n) = calls_before ?h1 rest ?n"
    by (rule calls_before_Suc)
  note IH = Cons.IH [of ?ex1]
  show ?case
  proof (cases "call_of a")
    case None
    have nok: "\<not> succeeded things ?h (a # rest) 0"
      using None by (simp add: succeeded_def answer_0)
    have step: "?ex1 = ex\<lparr>itemsFailed := itemsFailed ex + 1,
        errors := errors ex @ [failure_message things ?h (a # rest) 0]\<rparr>"
      using None by (rule executeAction_no_call)
    have d: "dispatched ?ex1 = ?h1" using step None by simp
    show ?thesis
      using IH step nok None
      unfolding d
      by (simp add: ok bad msg failure_message_comp last del: upt_Suc)
  next
    case (Some c)
    note step = executeAction_call [OF Some, of things ex rest]
    have d: "dispatched ?ex1 = ?h1" using step Some by (simp split: if_splits)
    show ?thesis
    proof (cases "succeeded things ?h (a # rest) 0")
      case True
      then show ?thesis
        using IH step Some
        unfolding d
        by (simp add: ok bad msg failure_message_comp last del: upt_Suc)
    next
      case False
      then show ?thesis
        using IH step Some
        unfolding d
        by (simp add: ok bad msg failure_message_comp last del: upt_Suc)
    qed
  qed
qed

lemma all_calls_fail:
  assumes "\<And>h c. case things h c of Resolved res \<Rightarrow> \<not> ExecutionResult.success res
                                     | Rejected t \<Rightarrow> True"
  shows "\<not> succeeded things history acts i"
proof (cases "call_of (acts ! i)")
  case None
  then show ?thesis by (simp add: succeeded_def answer_def)
next
  case (Some c)
  show ?thesis
    using assms [of "calls_before history acts i" c] Some
    by (simp add: succeeded_def answer_def split: outcome.splits)
qed

lemma restoreActions_reverts:
  "restoreActions parse items acts = Inr acts1 \<Longrightarrow>
     filter (\<lambda>a. action a = RevertStatus_action) acts1
       = filter (\<lambda>a. action a = RevertStatus_action) acts"
proof (induction items arbitrary: acts)
  case Nil
  then show ?case by simp
next
  case (Cons item items)
  then show ?case by (auto split: sum.splits)
qed

lemma plan_revert_actions:
  assumes "getRollbackPlan parse db sid = Inr (Some p)"
  shows "filter (\<lambda>a. action a = RevertStatus_action) (RollbackPlan.actions p) =
     map (\<lambda>item. \<lparr>thingsId = thingsId item, itemType = itemType item,
                    action = RevertStatus_action,
                    data = Some (JsObject [(''previousStatus'',
                                            JsString (previousStatus item))])\<rparr>)
       (filter (\<lambda>item. newStatus item \<noteq> ''canceled'')
          (filter (\<lambda>row. Item.snapshotId row = sid) (snapshot_status (tables db))))"
proof -
  from assms obtain details acts where
    d: "getSnapshotDetails db sid = Some details"
    and r: "restoreActions parse (modifiedItems details)
              (cancelActions (createdItems details) []) = Inr acts"
    and p: "RollbackPlan.actions p = fst (revertActions (statusChanges details) (acts, []))"
    by (auto simp add: getRollbackPlan_def split: option.splits if_splits sum.splits prod.splits)
  have c: "filter (\<lambda>a. action a = RevertStatus_action) acts = []"
    using restoreActions_reverts [OF r] by (simp add: cancelActions_eq)
  have "filter (\<lambda>a. action a = RevertStatus_action) (RollbackPlan.actions p) =
     map (\<lambda>item. \<lparr>thingsId = thingsId item, itemType = itemType item,
                    action = RevertStatus_action,
                    data = Some (JsObject [(''previousStatus'',
                                            JsString (previousStatus item))])\<rparr>)
       (filter (\<lambda>item. newStatus item \<noteq> ''canceled'') (statusChanges details))"
    unfolding p revertActions_eq fst_conv filter_append c
    by (simp add: filter_map comp_def)
  then show ?thesis using getSnapshotDetails_fields [OF d] by simp
qed

lemma revert_row_fails:
  "executeAction things
     \<lparr>thingsId = thingsId item, itemType = itemType item, action = RevertStatus_action,
      data = Some (JsObject [(''previousStatus'', JsString (previousStatus item))])\<rparr> ex
   = ex\<lparr>itemsFailed := itemsFailed ex + 1,
        errors := errors ex @
          [if previousStatus item = ''open''
           then ''Cannot revert status for '' @ thingsId item
                @ '' - status changes are difficult to reverse''
           else ''Failed to rollback '' @ thingsId item]\<rparr>"
  by (simp add: executeAction_def previousStatusOf_def classify_def)

lemma executeActions_errors_grow:
  "set (errors ex) \<subseteq> set (errors (executeActions things acts ex))"
  by (simp add: executeActions_spec)

lemma revert_row_message:
  assumes "\<lparr>thingsId = thingsId item, itemType = itemType item, action = RevertStatus_action,
      data = Some (JsObject [(''previousStatus'', JsString (previousStatus item))])\<rparr>
      \<in> set acts"
  shows "(if previousStatus item = ''open''
           then ''Cannot revert status for '' @ thingsId item
                @ '' - status changes are difficult to reverse''
           else ''Failed to rollback '' @ thingsId item)
         \<in> set (errors (executeActions things acts ex))"
proof -
  let ?a = "\<lparr>thingsId = thingsId item, itemType = itemType item, action = RevertStatus_action,
      data = Some (JsObject [(''previousStatus'', JsString (previousStatus item))])\<rparr>"
  from assms obtain xs ys where s: "acts = xs @ ?a # ys"
    by (auto simp add: in_set_conv_decomp)
  let ?ex1 = "executeActions things xs ex"
  let ?m = "if previousStatus item = ''open''
           then ''Cannot revert status for '' @ thingsId item
                @ '' - status changes are difficult to reverse''
           else ''Failed to rollback '' @ thingsId item"
  have "?m \<in> set (errors (executeAction things ?a ?ex1))"
    unfolding revert_row_fails [of things item ?ex1] by simp
  then have "?m \<in> set (errors (executeActions things ys (executeAction things ?a ?ex1)))"
    using executeActions_errors_grow [of "executeAction things ?a ?ex1" things ys] by blast
  then show ?thesis using s by (simp add: executeActions_append)
qed

lemma example_failing_execution:
  "executeActions example_failing_things (RollbackPlan.actions example_plan)
     \<lparr>itemsRolledBack = 0, itemsFailed = 0, errors = [], dispatched = []\<rparr>
   = \<lparr>itemsRolledBack = 0, itemsFailed = 3,
      errors = [''boom'', ''Rate limit exceeded. Please wait 3 seconds.'',
                ''Cannot revert status for status-1 - status changes are difficult to reverse''],
      dispatched = [CancelTodo ''new-1'',
                    UpdateTodo ''mod-1'' (JsObject [(''title'', JsString ''Old'')])]\<rparr>"
  by (simp add: example_plan_def executeAction_def dispatch_def settle_def classify_def
      example_failing_things_def previousStatusOf_def)

lemma example_reopened_plan:
  "getRollbackPlan example_parse example_reopened_store ''snap-1'' =
     Inr (Some \<lparr>RollbackPlan.snapshotId = ''snap-1'', operationType = Json,
                description = ''Bulk operation: 4 items'',
                actions =
                  [\<lparr>thingsId = ''st-1'', itemType = ToDo, action = RevertStatus_action,
                    data = Some (JsObject [(''previousStatus'', JsString ''completed'')])\<rparr>],
                warnings = []\<rparr>)"
  by (simp add: getRollbackPlan_def getSnapshotDetails_def getSnapshot_def
      example_reopened_store_def example_snapshot_def)

text \<open>
  Claim C9, as amended. A dry run of the rollback command never changes the database and
  never calls the client, whatever the snapshot and whether or not a token is configured.
  When a token is configured and \<^verbatim>\<open>getRollbackPlan\<close> returns a plan, the dry run
  succeeds and returns that plan and its warnings.
\<close>

theorem rollbackCommand_dry_run:
  "(RollbackOptions.dryRun options = Some True \<longrightarrow>
      snd (rollbackCommand parse things now authToken sid options db history) = (db, history))
   \<and> (RollbackOptions.dryRun options = Some True \<and> authToken = Some token \<and> token \<noteq> []
        \<and> getRollbackPlan parse db sid = Inr (Some p) \<longrightarrow>
      fst (rollbackCommand parse things now authToken sid options db history) =
        \<lparr>RollbackCommandResult.success = True, snapshotId = sid, plan = Some p,
         result = None, error = None, warnings = Some (RollbackPlan.warnings p)\<rparr>)"
proof (intro conjI impI)
  assume "RollbackOptions.dryRun options = Some True"
  then show "snd (rollbackCommand parse things now authToken sid options db history)
      = (db, history)"
    by (intro rollbackCommand_unchanged) simp
next
  assume "RollbackOptions.dryRun options = Some True \<and> authToken = Some token \<and> token \<noteq> []
        \<and> getRollbackPlan parse db sid = Inr (Some p)"
  then show "fst (rollbackCommand parse things now authToken sid options db history) =
        \<lparr>RollbackCommandResult.success = True, snapshotId = sid, plan = Some p,
         result = None, error = None, warnings = Some (RollbackPlan.warnings p)\<rparr>"
    by (simp add: rollbackCommand_def)
qed

theorem rollbackCommand_dry_run_witness:
  "RollbackOptions.dryRun \<lparr>dryRun = Some True, json = None, force = None\<rparr> = Some True
   \<and> getRollbackPlan example_parse example_store ''snap-1'' = Inr (Some example_plan)
   \<and> rollbackCommand example_parse example_things ''2024-01-02T00:00:00.000Z'' (Some ''token'')
        ''snap-1'' \<lparr>dryRun = Some True, json = None, force = None\<rparr> example_store []
      = (\<lparr>RollbackCommandResult.success = True, snapshotId = ''snap-1'',
           plan = Some example_plan, result = None, error = None,
           warnings = Some (RollbackPlan.warnings example_plan)\<rparr>,
         example_store, [])"
  using rollbackCommand_dry_run [of "\<lparr>dryRun = Some True, json = None, force = None\<rparr>"
      example_parse example_things "''2024-01-02T00:00:00.000Z''" "Some ''token''" "''snap-1''"
      example_store "[]" "''token''" example_plan]
    example_getRollbackPlan
  by (simp add: prod_eq_iff)

text \<open>
  The claim C9 as the specification words it fails when no token is configured: the dry
  run of an active snapshot then returns the authentication error and no plan.
\<close>

theorem dry_run_without_token_counterexample:
  "getSnapshot example_store ''snap-1'' = Some example_snapshot
   \<and> status example_snapshot = Active
   \<and> RollbackCommandResult.success
        (fst (rollbackCommand example_parse example_things ''2024-01-02T00:00:00.000Z'' None
                ''snap-1'' \<lparr>dryRun = Some True, json = None, force = None\<rparr> example_store []))
      = False
   \<and> RollbackCommandResult.plan
        (fst (rollbackCommand example_parse example_things ''2024-01-02T00:00:00.000Z'' None
                ''snap-1'' \<lparr>dryRun = Some True, json = None, force = None\<rparr> example_store []))
      = None"
  by (simp add: rollbackCommand_def failure_def example_snapshot_def)

text \<open>
  Claim C2. In a rollback that is not a dry run the loop goes through every action of the
  plan, whatever failed before: the action at index \<open>i\<close> makes its call on the client
  (every \<^verbatim>\<open>cancel\<close> action and every \<^verbatim>\<open>restore\<close> action with data has one) after
  the calls of the actions before it. The action is counted as rolled back exactly when
  the client resolves that call with a successful result, and as failed otherwise: when
  the call is rejected, when it resolves without success, and when the action makes no
  call. The result reports the number of actions rolled back, the number of actions
  failed, and the error messages of the failed actions, one each, in the order of the
  plan; the two counts add up to the number of actions. The snapshot is marked
  \<^verbatim>\<open>rolled-back\<close> when no action failed and \<^verbatim>\<open>partial-rollback\<close> otherwise. In
  particular, with a client none of whose calls succeeds, every action of a plan that has
  one is counted as failed, none as rolled back, and the snapshot is marked
  \<^verbatim>\<open>partial-rollback\<close>.
\<close>

theorem rollbackCommand_attempts_all:
  assumes "authToken = Some token" and "token \<noteq> []"
    and "getRollbackPlan parse db sid = Inr (Some p)"
    and "RollbackOptions.dryRun options \<noteq> Some True"
    and "rollbackCommand parse things now authToken sid options db history = (r, db1, history1)"
  shows
    "(let acts = RollbackPlan.actions p;
          done = filter (succeeded things history acts) [0..<length acts];
          failed = filter (\<lambda>i. \<not> succeeded things history acts i) [0..<length acts]
      in RollbackCommandResult.result r =
           Some \<lparr>RollbackResult.success = (failed = []), snapshotId = sid,
                 itemsRolledBack = length done, itemsFailed = length failed,
                 errors = map (failure_message things history acts) failed\<rparr>
         \<and> RollbackCommandResult.success r = (failed = [])
         \<and> length done + length failed = length acts
         \<and> history1 = history @ List.map_filter call_of acts
         \<and> db1 = markRolledBack now sid
                   (if failed = [] then Outcome_RolledBack else Outcome_PartialRollback) db
         \<and> map_option status (getSnapshot db1 sid) =
              Some (if failed = [] then RolledBack else PartialRollback)
         \<and> (acts \<noteq> []
              \<and> (\<forall>h c. case things h c of
                          Resolved res \<Rightarrow> \<not> ExecutionResult.success res
                        | Rejected t \<Rightarrow> True) \<longrightarrow>
              done = [] \<and> failed = [0..<length acts]
              \<and> map_option status (getSnapshot db1 sid) = Some PartialRollback))"
proof -
  let ?acts = "RollbackPlan.actions p"
  let ?done = "filter (succeeded things history ?acts) [0..<length ?acts]"
  let ?failed = "filter (\<lambda>i. \<not> succeeded things history ?acts i) [0..<length ?acts]"
  let ?ex0 = "\<lparr>itemsRolledBack = 0, itemsFailed = 0, errors = [], dispatched = history\<rparr>"
  let ?ex = "executeActions things ?acts ?ex0"
  have ex: "?ex = \<lparr>itemsRolledBack = length ?done, itemsFailed = length ?failed,
                   errors = map (failure_message things history ?acts) ?failed,
                   dispatched = history @ List.map_filter call_of ?acts\<rparr>"
    apply (subst executeActions_spec)
    apply (simp add: calls_before_def)
    done
  note run = rollbackCommand_run [OF assms(1-4), of things now history]
  from plan_needs_active [OF assms(3)] obtain s where
    s: "getSnapshot db sid = Some s" by blast
  have zero: "(length ?failed = 0) = (?failed = [])" by simp
  have r: "RollbackCommandResult.result r =
           Some \<lparr>RollbackResult.success = (?failed = []), snapshotId = sid,
                 itemsRolledBack = length ?done, itemsFailed = length ?failed,
                 errors = map (failure_message things history ?acts) ?failed\<rparr>"
    and r2: "RollbackCommandResult.success r = (?failed = [])"
    and d: "db1 = markRolledBack now sid
            (if ?failed = [] then Outcome_RolledBack else Outcome_PartialRollback) db"
    and h: "history1 = history @ List.map_filter call_of ?acts"
    using run assms(5) unfolding Let_def ex by (auto simp only: zero Execution.simps prod.inject
        RollbackCommandResult.simps)
  have st: "map_option status (getSnapshot db1 sid) =
              Some (if ?failed = [] then RolledBack else PartialRollback)"
    using d s by (simp add: markRolledBack_def getSnapshot_updateSnapshotStatus)
  have total: "length ?done + length ?failed = length ?acts"
    using sum_length_filter_compl [of "succeeded things history ?acts" "[0..<length ?acts]"]
    by simp
  have allfail: "?acts \<noteq> []
              \<and> (\<forall>h c. case things h c of
                          Resolved res \<Rightarrow> \<not> ExecutionResult.success res
                        | Rejected t \<Rightarrow> True) \<longrightarrow>
              ?done = [] \<and> ?failed = [0..<length ?acts]
              \<and> map_option status (getSnapshot db1 sid) = Some PartialRollback"
  proof
    assume a: "?acts \<noteq> []
              \<and> (\<forall>h c. case things h c of
                          Resolved res \<Rightarrow> \<not> ExecutionResult.success res
                        | Rejected t \<Rightarrow> True)"
    then have no: "\<And>i. \<not> succeeded things history ?acts i"
      by (intro all_calls_fail) simp
    have f: "?failed = [0..<length ?acts]" and dn: "?done = []"
      using no by simp_all
    have "?failed \<noteq> []" using f a by simp
    then show "?done = [] \<and> ?failed = [0..<length ?acts]
              \<and> map_option status (getSnapshot db1 sid) = Some PartialRollback"
      using f dn st by simp
  qed
  show ?thesis
    unfolding Let_def using r r2 total h d st allfail by (intro conjI)
qed

theorem rollbackCommand_attempts_all_witness:
  "getRollbackPlan example_parse example_store ''snap-1'' = Inr (Some example_plan)
   \<and> RollbackOptions.dryRun \<lparr>dryRun = None, json = None, force = None\<rparr> = None
   \<and> length (RollbackPlan.actions example_plan) = 3
   \<and> rollbackCommand example_parse example_failing_things ''2024-01-02T00:00:00.000Z''
        (Some ''token'') ''snap-1'' \<lparr>dryRun = None, json = None, force = None\<rparr>
        example_store []
      = (\<lparr>RollbackCommandResult.success = False, snapshotId = ''snap-1'',
           plan = Some example_plan,
           result = Some \<lparr>RollbackResult.success = False, snapshotId = ''snap-1'',
                          itemsRolledBack = 0, itemsFailed = 3,
                          errors = [''boom'', ''Rate limit exceeded. Please wait 3 seconds.'',
                                    ''Cannot revert status for status-1 - status changes are difficult to reverse'']\<rparr>,
           error = None, warnings = Some (RollbackPlan.warnings example_plan)\<rparr>,
         markRolledBack ''2024-01-02T00:00:00.000Z'' ''snap-1'' Outcome_PartialRollback
           example_store,
         [CancelTodo ''new-1'', UpdateTodo ''mod-1'' (JsObject [(''title'', JsString ''Old'')])])
   \<and> (\<forall>h c. case example_failing_things h c of
                Resolved res \<Rightarrow> \<not> ExecutionResult.success res
              | Rejected t \<Rightarrow> True)
   \<and> filter (succeeded example_failing_things [] (RollbackPlan.actions example_plan))
        [0..<length (RollbackPlan.actions example_plan)] = []
   \<and> filter (\<lambda>i. \<not> succeeded example_failing_things []
                       (RollbackPlan.actions example_plan) i)
        [0..<length (RollbackPlan.actions example_plan)] = [0, 1, 2]
   \<and> map (failure_message example_failing_things [] (RollbackPlan.actions example_plan))
        (filter (\<lambda>i. \<not> succeeded example_failing_things []
                          (RollbackPlan.actions example_plan) i)
           [0..<length (RollbackPlan.actions example_plan)])
      = [''boom'', ''Rate limit exceeded. Please wait 3 seconds.'',
         ''Cannot revert status for status-1 - status changes are difficult to reverse'']
   \<and> map_option status
        (getSnapshot
           (markRolledBack ''2024-01-02T00:00:00.000Z'' ''snap-1'' Outcome_PartialRollback
              example_store) ''snap-1'')
      = Some PartialRollback
   \<and> rollbackCommand example_parse example_things ''2024-01-02T00:00:00.000Z'' (Some ''token'')
        ''snap-1'' \<lparr>dryRun = None, json = None, force = None\<rparr> example_store []
      = (\<lparr>RollbackCommandResult.success = False, snapshotId = ''snap-1'',
           plan = Some example_plan,
           result = Some \<lparr>RollbackResult.success = False, snapshotId = ''snap-1'',
                          itemsRolledBack = 2, itemsFailed = 1,
                          errors = [''Cannot revert status for status-1 - status changes are difficult to reverse'']\<rparr>,
           error = None, warnings = Some (RollbackPlan.warnings example_plan)\<rparr>,
         markRolledBack ''2024-01-02T00:00:00.000Z'' ''snap-1'' Outcome_PartialRollback
           example_store,
         [CancelTodo ''new-1'', UpdateTodo ''mod-1'' (JsObject [(''title'', JsString ''Old'')])])"
proof -
  let ?run = "rollbackCommand example_parse example_failing_things ''2024-01-02T00:00:00.000Z''
        (Some ''token'') ''snap-1'' \<lparr>dryRun = None, json = None, force = None\<rparr>
        example_store []"
  have t: "(''token''::string) \<noteq> []" by simp
  have o: "RollbackOptions.dryRun \<lparr>dryRun = None, json = None, force = None\<rparr> \<noteq> Some True"
    by simp
  have l: "length (RollbackPlan.actions example_plan) = 3" by (simp add: example_plan_def)
  have v: "?run =
      (\<lparr>RollbackCommandResult.success = False, snapshotId = ''snap-1'',
           plan = Some example_plan,
           result = Some \<lparr>RollbackResult.success = False, snapshotId = ''snap-1'',
                          itemsRolledBack = 0, itemsFailed = 3,
                          errors = [''boom'', ''Rate limit exceeded. Please wait 3 seconds.'',
                                    ''Cannot revert status for status-1 - status changes are difficult to reverse'']\<rparr>,
           error = None, warnings = Some (RollbackPlan.warnings example_plan)\<rparr>,
         markRolledBack ''2024-01-02T00:00:00.000Z'' ''snap-1'' Outcome_PartialRollback
           example_store,
         [CancelTodo ''new-1'', UpdateTodo ''mod-1'' (JsObject [(''title'', JsString ''Old'')])])"
    using rollbackCommand_run [OF refl t example_getRollbackPlan o]
    by (simp add: example_failing_execution Let_def)
  note th = rollbackCommand_attempts_all [OF refl t example_getRollbackPlan o v]
  note c = th [unfolded Let_def]
  let ?failed = "filter (\<lambda>i. \<not> succeeded example_failing_things []
                                   (RollbackPlan.actions example_plan) i)
                     [0..<length (RollbackPlan.actions example_plan)]"
  let ?done = "filter (succeeded example_failing_things [] (RollbackPlan.actions example_plan))
                     [0..<length (RollbackPlan.actions example_plan)]"
  from conjunct1 [OF c] have
    r: "\<lparr>RollbackResult.success = (?failed = []), snapshotId = ''snap-1'',
          itemsRolledBack = length ?done, itemsFailed = length ?failed,
          errors = map (failure_message example_failing_things []
                         (RollbackPlan.actions example_plan)) ?failed\<rparr>
        = \<lparr>RollbackResult.success = False, snapshotId = ''snap-1'',
              itemsRolledBack = 0, itemsFailed = 3,
              errors = [''boom'', ''Rate limit exceeded. Please wait 3 seconds.'',
                        ''Cannot revert status for status-1 - status changes are difficult to reverse'']\<rparr>"
    by (simp only: RollbackCommandResult.select_convs option.inject)
  have e: "map (failure_message example_failing_things [] (RollbackPlan.actions example_plan))
             ?failed
      = [''boom'', ''Rate limit exceeded. Please wait 3 seconds.'',
         ''Cannot revert status for status-1 - status changes are difficult to reverse'']"
    using arg_cong [OF r, of RollbackResult.errors]
    by (simp only: RollbackResult.select_convs)
  have "length ?done = 0"
    using arg_cong [OF r, of RollbackResult.itemsRolledBack]
    by (simp only: RollbackResult.select_convs)
  then have d: "?done = []" by (simp only: length_0_conv)
  have "(?failed = []) = False"
    using arg_cong [OF r, of RollbackResult.success]
    by (simp only: RollbackResult.select_convs)
  then have n: "?failed \<noteq> []" by (simp only: simp_thms)
  have s: "map_option status
        (getSnapshot
           (markRolledBack ''2024-01-02T00:00:00.000Z'' ''snap-1'' Outcome_PartialRollback
              example_store) ''snap-1'')
      = Some PartialRollback"
    using conjunct1 [OF conjunct2 [OF conjunct2 [OF conjunct2 [OF conjunct2 [OF conjunct2 [OF c]]]]]] n
    by (simp only: if_False)
  have a: "\<forall>h c. case example_failing_things h c of
                Resolved res \<Rightarrow> \<not> ExecutionResult.success res
              | Rejected t \<Rightarrow> True"
    by (simp add: example_failing_things_def split: ClientCall.splits)
  have ne: "RollbackPlan.actions example_plan \<noteq> []" by (simp add: example_plan_def)
  have "?failed = [0..<length (RollbackPlan.actions example_plan)]"
    using conjunct2 [OF conjunct2 [OF conjunct2 [OF conjunct2 [OF conjunct2
            [OF conjunct2 [OF c]]]]]] ne a
    by blast
  then have f: "?failed = [0, 1, 2]"
    unfolding l by (simp add: upt_rec)
  have v2: "rollbackCommand example_parse example_things ''2024-01-02T00:00:00.000Z''
        (Some ''token'') ''snap-1'' \<lparr>dryRun = None, json = None, force = None\<rparr>
        example_store []
      = (\<lparr>RollbackCommandResult.success = False, snapshotId = ''snap-1'',
           plan = Some example_plan,
           result = Some \<lparr>RollbackResult.success = False, snapshotId = ''snap-1'',
                          itemsRolledBack = 2, itemsFailed = 1,
                          errors = [''Cannot revert status for status-1 - status changes are difficult to reverse'']\<rparr>,
           error = None, warnings = Some (RollbackPlan.warnings example_plan)\<rparr>,
         markRolledBack ''2024-01-02T00:00:00.000Z'' ''snap-1'' Outcome_PartialRollback
           example_store,
         [CancelTodo ''new-1'', UpdateTodo ''mod-1'' (JsObject [(''title'', JsString ''Old'')])])"
    using rollbackCommand_run [OF refl t example_getRollbackPlan o]
    by (simp add: example_execution Let_def)
  show ?thesis
  proof (intro conjI)
    show "RollbackOptions.dryRun \<lparr>dryRun = None, json = None, force = None\<rparr> = None"
      by simp
  qed (rule example_getRollbackPlan l v a d f e s v2)+
qed

text \<open>
  Claim C10. A \<^verbatim>\<open>revert-status\<close> action makes no call on the client and is counted
  as failed with one error message, never as rolled back. The \<^verbatim>\<open>revert-status\<close>
  actions of a plan are those that \<^verbatim>\<open>getRollbackPlan\<close> builds from the stored
  status-change rows of the snapshot whose new status is not \<^verbatim>\<open>canceled\<close>, in the
  order of the table, each with the previous status of its row as data. Executing the
  action of such a row appends the message that the status cannot be reverted when the
  previous status stored in the row is \<^verbatim>\<open>open\<close>, and the generic message for every
  other previous status; the result of the rollback holds that message. So a rollback
  whose plan holds a \<^verbatim>\<open>revert-status\<close> action fails as a whole and marks the snapshot
  \<^verbatim>\<open>partial-rollback\<close>.
\<close>

theorem revert_status_never_succeeds:
  "(action a = RevertStatus_action \<longrightarrow>
      dispatched (executeAction things a ex) = dispatched ex
      \<and> itemsRolledBack (executeAction things a ex) = itemsRolledBack ex
      \<and> itemsFailed (executeAction things a ex) = itemsFailed ex + 1
      \<and> length (errors (executeAction things a ex)) = length (errors ex) + 1)
   \<and> executeAction things
        \<lparr>thingsId = thingsId item, itemType = itemType item, action = RevertStatus_action,
         data = Some (JsObject [(''previousStatus'', JsString (previousStatus item))])\<rparr> ex
      = ex\<lparr>itemsFailed := itemsFailed ex + 1,
           errors := errors ex @
             [if previousStatus item = ''open''
              then ''Cannot revert status for '' @ thingsId item
                   @ '' - status changes are difficult to reverse''
              else ''Failed to rollback '' @ thingsId item]\<rparr>
   \<and> (getRollbackPlan parse db sid = Inr (Some p) \<longrightarrow>
        filter (\<lambda>a. action a = RevertStatus_action) (RollbackPlan.actions p) =
          map (\<lambda>item. \<lparr>thingsId = thingsId item, itemType = itemType item,
                         action = RevertStatus_action,
                         data = Some (JsObject [(''previousStatus'',
                                                 JsString (previousStatus item))])\<rparr>)
            (filter (\<lambda>item. newStatus item \<noteq> ''canceled'')
               (filter (\<lambda>row. Item.snapshotId row = sid) (snapshot_status (tables db)))))
   \<and> (authToken = Some token \<and> token \<noteq> []
        \<and> getRollbackPlan parse db sid = Inr (Some p)
        \<and> RollbackOptions.dryRun options \<noteq> Some True
        \<and> item \<in> set (snapshot_status (tables db)) \<and> Item.snapshotId item = sid
        \<and> newStatus item \<noteq> ''canceled'' \<longrightarrow>
      (\<exists>res. RollbackCommandResult.result
                (fst (rollbackCommand parse things now authToken sid options db history))
              = Some res
            \<and> (if previousStatus item = ''open''
                then ''Cannot revert status for '' @ thingsId item
                     @ '' - status changes are difficult to reverse''
                else ''Failed to rollback '' @ thingsId item)
              \<in> set (RollbackResult.errors res)
            \<and> 0 < RollbackResult.itemsFailed res))
   \<and> (authToken = Some token \<and> token \<noteq> []
        \<and> getRollbackPlan parse db sid = Inr (Some p)
        \<and> RollbackOptions.dryRun options \<noteq> Some True
        \<and> b \<in> set (RollbackPlan.actions p) \<and> action b = RevertStatus_action \<longrightarrow>
      map_option status
        (getSnapshot
           (fst (snd (rollbackCommand parse things now authToken sid options db history))) sid)
        = Some PartialRollback
      \<and> RollbackCommandResult.success
          (fst (rollbackCommand parse things now authToken sid options db history)) = False)"
proof (intro conjI impI)
  assume a: "action a = RevertStatus_action"
  show "dispatched (executeAction things a ex) = dispatched ex"
    and "itemsRolledBack (executeAction things a ex) = itemsRolledBack ex"
    and "itemsFailed (executeAction things a ex) = itemsFailed ex + 1"
    and "length (errors (executeAction things a ex)) = length (errors ex) + 1"
    by (simp_all add: revert_action_fails [OF a])
next
  show "executeAction things
        \<lparr>thingsId = thingsId item, itemType = itemType item, action = RevertStatus_action,
         data = Some (JsObject [(''previousStatus'', JsString (previousStatus item))])\<rparr> ex
      = ex\<lparr>itemsFailed := itemsFailed ex + 1,
           errors := errors ex @
             [if previousStatus item = ''open''
              then ''Cannot revert status for '' @ thingsId item
                   @ '' - status changes are difficult to reverse''
              else ''Failed to rollback '' @ thingsId item]\<rparr>"
    by (rule revert_row_fails)
next
  assume "getRollbackPlan parse db sid = Inr (Some p)"
  then show "filter (\<lambda>a. action a = RevertStatus_action) (RollbackPlan.actions p) =
          map (\<lambda>item. \<lparr>thingsId = thingsId item, itemType = itemType item,
                         action = RevertStatus_action,
                         data = Some (JsObject [(''previousStatus'',
                                                 JsString (previousStatus item))])\<rparr>)
            (filter (\<lambda>item. newStatus item \<noteq> ''canceled'')
               (filter (\<lambda>row. Item.snapshotId row = sid) (snapshot_status (tables db))))"
    by (rule plan_revert_actions)
next
  assume h: "authToken = Some token \<and> token \<noteq> []
        \<and> getRollbackPlan parse db sid = Inr (Some p)
        \<and> RollbackOptions.dryRun options \<noteq> Some True
        \<and> item \<in> set (snapshot_status (tables db)) \<and> Item.snapshotId item = sid
        \<and> newStatus item \<noteq> ''canceled''"
  let ?a = "\<lparr>thingsId = thingsId item, itemType = itemType item, action = RevertStatus_action,
      data = Some (JsObject [(''previousStatus'', JsString (previousStatus item))])\<rparr> :: 'a RollbackAction"
  let ?ex = "executeActions things (RollbackPlan.actions p)
                 \<lparr>itemsRolledBack = 0, itemsFailed = 0, errors = [], dispatched = history\<rparr>"
  from h have p: "getRollbackPlan parse db sid = Inr (Some p)" by simp
  have "?a \<in> set (filter (\<lambda>a. action a = RevertStatus_action) (RollbackPlan.actions p))"
    unfolding plan_revert_actions [OF p] using h by (simp add: image_iff) blast
  then have m: "?a \<in> set (RollbackPlan.actions p)" by simp
  have e: "(if previousStatus item = ''open''
                then ''Cannot revert status for '' @ thingsId item
                     @ '' - status changes are difficult to reverse''
                else ''Failed to rollback '' @ thingsId item) \<in> set (errors ?ex)"
    by (rule revert_row_message [OF m])
  have f: "0 < itemsFailed ?ex"
    by (rule revert_in_plan_fails [OF m]) simp
  from h have run: "RollbackCommandResult.result
      (fst (rollbackCommand parse things now authToken sid options db history)) =
     Some \<lparr>RollbackResult.success = (itemsFailed ?ex = 0),
                          snapshotId = sid,
                          itemsRolledBack = itemsRolledBack ?ex,
                          itemsFailed = itemsFailed ?ex,
                          errors = errors ?ex\<rparr>"
    using rollbackCommand_run [of authToken token parse db sid p options things now history]
    by (simp add: Let_def)
  show "\<exists>res. RollbackCommandResult.result
                (fst (rollbackCommand parse things now authToken sid options db history))
              = Some res
            \<and> (if previousStatus item = ''open''
                then ''Cannot revert status for '' @ thingsId item
                     @ '' - status changes are difficult to reverse''
                else ''Failed to rollback '' @ thingsId item)
              \<in> set (RollbackResult.errors res)
            \<and> 0 < RollbackResult.itemsFailed res"
    unfolding run using e f by simp
next
  assume h: "authToken = Some token \<and> token \<noteq> []
        \<and> getRollbackPlan parse db sid = Inr (Some p)
        \<and> RollbackOptions.dryRun options \<noteq> Some True
        \<and> b \<in> set (RollbackPlan.actions p) \<and> action b = RevertStatus_action"
  let ?ex = "executeActions things (RollbackPlan.actions p)
                 \<lparr>itemsRolledBack = 0, itemsFailed = 0, errors = [], dispatched = history\<rparr>"
  from h have f: "0 < itemsFailed ?ex"
    by (intro revert_in_plan_fails [of b]) simp_all
  from h have run: "rollbackCommand parse things now authToken sid options db history =
     (\<lparr>RollbackCommandResult.success = (itemsFailed ?ex = 0),
           snapshotId = sid, plan = Some p,
           result = Some \<lparr>RollbackResult.success = (itemsFailed ?ex = 0),
                          snapshotId = sid,
                          itemsRolledBack = itemsRolledBack ?ex,
                          itemsFailed = itemsFailed ?ex,
                          errors = errors ?ex\<rparr>,
           error = None, warnings = Some (RollbackPlan.warnings p)\<rparr>,
          markRolledBack now sid
            (if itemsFailed ?ex = 0 then Outcome_RolledBack else Outcome_PartialRollback) db,
          dispatched ?ex)"
    using rollbackCommand_run [of authToken token parse db sid p options things now history]
    by (simp add: Let_def)
  from h plan_needs_active obtain s where s: "getSnapshot db sid = Some s" by blast
  show "map_option status
        (getSnapshot
           (fst (snd (rollbackCommand parse things now authToken sid options db history))) sid)
        = Some PartialRollback"
    using run f s by (simp add: markRolledBack_def getSnapshot_updateSnapshotStatus)
  show "RollbackCommandResult.success
          (fst (rollbackCommand parse things now authToken sid options db history)) = False"
    using run f by simp
qed

theorem revert_status_never_succeeds_witness:
  "getRollbackPlan example_parse example_reopened_store ''snap-1'' =
     Inr (Some \<lparr>RollbackPlan.snapshotId = ''snap-1'', operationType = Json,
                description = ''Bulk operation: 4 items'',
                actions =
                  [\<lparr>thingsId = ''st-1'', itemType = ToDo, action = RevertStatus_action,
                    data = Some (JsObject [(''previousStatus'', JsString ''completed'')])\<rparr>],
                warnings = []\<rparr>)
   \<and> executeAction example_things
        \<lparr>thingsId = ''st-1'', itemType = ToDo, action = RevertStatus_action,
         data = Some (JsObject [(''previousStatus'', JsString ''completed'')])\<rparr>
        \<lparr>itemsRolledBack = 0, itemsFailed = 0, errors = [], dispatched = []\<rparr>
      = \<lparr>itemsRolledBack = 0, itemsFailed = 1, errors = [''Failed to rollback st-1''],
         dispatched = []\<rparr>
   \<and> RollbackCommandResult.result
        (fst (rollbackCommand example_parse example_things ''2024-01-02T00:00:00.000Z''
                (Some ''token'') ''snap-1'' \<lparr>dryRun = None, json = None, force = None\<rparr>
                example_reopened_store []))
      = Some \<lparr>RollbackResult.success = False, snapshotId = ''snap-1'',
              itemsRolledBack = 0, itemsFailed = 1, errors = [''Failed to rollback st-1'']\<rparr>
   \<and> snd (snd (rollbackCommand example_parse example_things ''2024-01-02T00:00:00.000Z''
                  (Some ''token'') ''snap-1'' \<lparr>dryRun = None, json = None, force = None\<rparr>
                  example_reopened_store []))
      = []
   \<and> map_option status
        (getSnapshot
           (fst (snd (rollbackCommand example_parse example_things ''2024-01-02T00:00:00.000Z''
                        (Some ''token'') ''snap-1''
                        \<lparr>dryRun = None, json = None, force = None\<rparr>
                        example_reopened_store [])))
           ''snap-1'')
      = Some PartialRollback
   \<and> executeAction example_things
        \<lparr>thingsId = ''status-1'', itemType = ToDo, action = RevertStatus_action,
         data = Some (JsObject [(''previousStatus'', JsString ''open'')])\<rparr>
        \<lparr>itemsRolledBack = 2, itemsFailed = 0, errors = [], dispatched = [CancelTodo ''new-1'']\<rparr>
      = \<lparr>itemsRolledBack = 2, itemsFailed = 1,
         errors = [''Cannot revert status for status-1 - status changes are difficult to reverse''],
         dispatched = [CancelTodo ''new-1'']\<rparr>
   \<and> map_option status
        (getSnapshot
           (fst (snd (rollbackCommand example_parse example_things ''2024-01-02T00:00:00.000Z''
                        (Some ''token'') ''snap-1''
                        \<lparr>dryRun = None, json = None, force = None\<rparr> example_store [])))
           ''snap-1'')
      = Some PartialRollback"
proof -
  let ?row1 = "\<lparr>thingsId = ''st-1'', itemType = ToDo, id_item = 1, snapshotId = ''snap-1'',
             previousStatus = ''completed'', newStatus = ''open''\<rparr>"
  let ?row2 = "\<lparr>thingsId = ''status-1'', itemType = ToDo, id_item = 1, snapshotId = ''snap-1'',
             previousStatus = ''open'', newStatus = ''completed''\<rparr>"
  let ?a1 = "\<lparr>thingsId = ''st-1'', itemType = ToDo, action = RevertStatus_action,
         data = Some (JsObject [(''previousStatus'', JsString ''completed'')])\<rparr> :: int RollbackAction"
  let ?a2 = "\<lparr>thingsId = ''status-1'', itemType = ToDo, action = RevertStatus_action,
           data = Some (JsObject [(''previousStatus'', JsString (''open''))])\<rparr> :: int RollbackAction"
  let ?p1 = "\<lparr>RollbackPlan.snapshotId = ''snap-1'', operationType = Json,
                description = ''Bulk operation: 4 items'',
                actions = [?a1], warnings = []\<rparr>"
  let ?o = "\<lparr>dryRun = None, json = None, force = None\<rparr>"
  let ?ex0 = "\<lparr>itemsRolledBack = 0, itemsFailed = 0, errors = [], dispatched = []\<rparr> :: int Execution"
  have t: "(''token''::string) \<noteq> []" by simp
  have o: "RollbackOptions.dryRun ?o \<noteq> Some True" by simp
  have m1: "?row1 \<in> set (snapshot_status (tables example_reopened_store))"
    by (simp add: example_reopened_store_def)
  have m2: "?row2 \<in> set (snapshot_status (tables example_store))"
    by (simp add: example_store_def)
  have b2: "?a2 \<in> set (RollbackPlan.actions example_plan)" by (simp add: example_plan_def)
  note th1 = revert_status_never_succeeds [where a = ?a1 and things = example_things
      and ex = ?ex0 and item = ?row1 and parse = example_parse and db = example_reopened_store
      and sid = "''snap-1''" and p = ?p1 and authToken = "Some ''token''" and token = "''token''"
      and options = ?o and now = "''2024-01-02T00:00:00.000Z''" and history = "[]" and b = ?a1]
  note th2 = revert_status_never_succeeds [where a = ?a2 and things = example_things
      and ex = "\<lparr>itemsRolledBack = 2, itemsFailed = 0, errors = [],
                 dispatched = [CancelTodo ''new-1'']\<rparr>"
      and item = ?row2 and parse = example_parse and db = example_store
      and sid = "''snap-1''" and p = example_plan and authToken = "Some ''token''"
      and token = "''token''" and options = ?o and now = "''2024-01-02T00:00:00.000Z''"
      and history = "[]" and b = ?a2]
  have run1: "rollbackCommand example_parse example_things ''2024-01-02T00:00:00.000Z''
                (Some ''token'') ''snap-1'' ?o example_reopened_store []
      = (\<lparr>RollbackCommandResult.success = False, snapshotId = ''snap-1'', plan = Some ?p1,
          result = Some \<lparr>RollbackResult.success = False, snapshotId = ''snap-1'',
              itemsRolledBack = 0, itemsFailed = 1, errors = [''Failed to rollback st-1'']\<rparr>,
          error = None, warnings = Some []\<rparr>,
         markRolledBack ''2024-01-02T00:00:00.000Z'' ''snap-1'' Outcome_PartialRollback
           example_reopened_store, [])"
    using rollbackCommand_run [OF refl t example_reopened_plan o, of example_things
        "''2024-01-02T00:00:00.000Z''" "[]"] conjunct1 [OF conjunct2 [OF th1]]
    by (simp add: Let_def)
  from th1 th2 m1 m2 b2 example_reopened_plan example_getRollbackPlan run1
  show ?thesis by simp
qed

text \<open>
  Claim C5, as amended. The rollback command leaves every snapshot in the store, and it
  changes the status of a snapshot only from \<^verbatim>\<open>active\<close> to \<^verbatim>\<open>rolled-back\<close> or
  \<^verbatim>\<open>partial-rollback\<close>, and only of the snapshot it was called for. A snapshot whose
  status is not \<^verbatim>\<open>active\<close> keeps its record; called for such a snapshot, the command
  changes nothing in the store and calls nothing, so a rollback by the command happens at
  most once. (\<^verbatim>\<open>updateSnapshotStatus\<close> and \<^verbatim>\<open>markRolledBack\<close> themselves write the
  status they are given, whatever the current one.)
\<close>

theorem rollbackCommand_status_transitions:
  assumes "getSnapshot db j = Some s"
  shows "\<exists>s1. getSnapshot
                 (fst (snd (rollbackCommand parse things now authToken sid options db history))) j
               = Some s1
           \<and> (status s1 = status s
                \<or> (j = sid \<and> status s = Active
                    \<and> (status s1 = RolledBack \<or> status s1 = PartialRollback)))
           \<and> (status s \<noteq> Active \<longrightarrow> s1 = s)
           \<and> (status s \<noteq> Active \<and> j = sid \<longrightarrow>
                snd (rollbackCommand parse things now authToken sid options db history)
                  = (db, history))"
proof (cases "\<exists>token p. authToken = Some token \<and> token \<noteq> []
         \<and> getRollbackPlan parse db sid = Inr (Some p)
         \<and> RollbackOptions.dryRun options \<noteq> Some True")
  case False
  then have "snd (rollbackCommand parse things now authToken sid options db history)
      = (db, history)"
    by (rule rollbackCommand_unchanged)
  then show ?thesis using assms by simp
next
  case True
  then obtain token p where t: "authToken = Some token" "token \<noteq> []"
    and p: "getRollbackPlan parse db sid = Inr (Some p)"
    and o: "RollbackOptions.dryRun options \<noteq> Some True" by blast
  from plan_needs_active [OF p] obtain s0 where
    s0: "getSnapshot db sid = Some s0" "status s0 = Active" by blast
  let ?ex = "executeActions things (RollbackPlan.actions p)
                 \<lparr>itemsRolledBack = 0, itemsFailed = 0, errors = [], dispatched = history\<rparr>"
  have d: "fst (snd (rollbackCommand parse things now authToken sid options db history))
      = markRolledBack now sid
          (if itemsFailed ?ex = 0 then Outcome_RolledBack else Outcome_PartialRollback) db"
    using rollbackCommand_run [OF t p o, of things now history] by (simp add: Let_def)
  show ?thesis
  proof (cases "j = sid")
    case True
    with assms s0 have "s = s0" by simp
    then show ?thesis
      using d True s0 by (simp add: markRolledBack_def getSnapshot_updateSnapshotStatus)
  next
    case False
    then show ?thesis
      using d assms by (simp add: markRolledBack_def getSnapshot_updateSnapshotStatus)
  qed
qed

theorem rollbackCommand_status_transitions_witness:
  "getSnapshot (markRolledBack ''2024-01-02T00:00:00.000Z'' ''snap-1'' Outcome_RolledBack
                  example_store) ''snap-1''
     = Some (example_snapshot\<lparr>status := RolledBack,
                               rolledBackAt := Some ''2024-01-02T00:00:00.000Z''\<rparr>)
   \<and> status (example_snapshot\<lparr>status := RolledBack,
                 rolledBackAt := Some ''2024-01-02T00:00:00.000Z''\<rparr>) \<noteq> Active
   \<and> snd (rollbackCommand example_parse example_things ''2024-01-03T00:00:00.000Z''
             (Some ''token'') ''snap-1'' \<lparr>dryRun = None, json = None, force = None\<rparr>
             (markRolledBack ''2024-01-02T00:00:00.000Z'' ''snap-1'' Outcome_RolledBack
                example_store) [])
     = (markRolledBack ''2024-01-02T00:00:00.000Z'' ''snap-1'' Outcome_RolledBack example_store,
        [])"
  using rollbackCommand_status_transitions [OF example_rolled_back, of example_parse
      example_things "''2024-01-03T00:00:00.000Z''" "Some ''token''" "''snap-1''"
      "\<lparr>dryRun = None, json = None, force = None\<rparr>" "[]"]
    example_rolled_back
  by simp

text \<open>
  The claim C5 as the specification words it fails: \<^verbatim>\<open>markRolledBack\<close> on a snapshot
  that is already \<^verbatim>\<open>rolled-back\<close> changes its status to \<^verbatim>\<open>partial-rollback\<close> (and
  stamps \<^verbatim>\<open>rolledBackAt\<close> again).
\<close>

theorem status_monotonicity_counterexample:
  "getSnapshot (markRolledBack ''2024-01-02T00:00:00.000Z'' ''snap-1'' Outcome_RolledBack
                  example_store) ''snap-1''
     = Some (example_snapshot\<lparr>status := RolledBack,
                               rolledBackAt := Some ''2024-01-02T00:00:00.000Z''\<rparr>)
   \<and> getSnapshot
        (markRolledBack ''2024-01-03T00:00:00.000Z'' ''snap-1'' Outcome_PartialRollback
           (markRolledBack ''2024-01-02T00:00:00.000Z'' ''snap-1'' Outcome_RolledBack
              example_store)) ''snap-1''
     = Some (example_snapshot\<lparr>status := PartialRollback,
                               rolledBackAt := Some ''2024-01-03T00:00:00.000Z''\<rparr>)"
  by (simp add: markRolledBack_def getSnapshot_updateSnapshotStatus)

section \<open>Properties of the snapshot-creating operations\<close>

lemma getSnapshot_txn [simp]: "getSnapshot (db\<lparr>txn := t\<rparr>) i = getSnapshot db i"
  by (simp add: getSnapshot_def)

lemma addSnapshotCreated_effect:
  "txn (snd (addSnapshotCreated sid item db)) = txn db
   \<and> snapshots (tables (snd (addSnapshotCreated sid item db))) = snapshots (tables db)
   \<and> (isl (fst (addSnapshotCreated sid item db)) \<longleftrightarrow> getSnapshot db sid = None)
   \<and> (isl (fst (addSnapshotCreated sid item db)) \<longrightarrow> snd (addSnapshotCreated sid item db) = db)"
  by (simp add: addSnapshotCreated_def Let_def split: option.splits)

lemma addSnapshotStatus_effect:
  "txn (snd (addSnapshotStatus sid item db)) = txn db
   \<and> snapshots (tables (snd (addSnapshotStatus sid item db))) = snapshots (tables db)
   \<and> (isl (fst (addSnapshotStatus sid item db)) \<longleftrightarrow> getSnapshot db sid = None)
   \<and> (isl (fst (addSnapshotStatus sid item db)) \<longrightarrow> snd (addSnapshotStatus sid item db) = db)"
  by (simp add: addSnapshotStatus_def Let_def split: option.splits)

lemma addSnapshotModified_effect:
  "txn (snd (addSnapshotModified render sid item db)) = txn db
   \<and> snapshots (tables (snd (addSnapshotModified render sid item db))) = snapshots (tables db)
   \<and> (isl (fst (addSnapshotModified render sid item db)) \<longrightarrow>
        snd (addSnapshotModified render sid item db) = db)"
  by (simp add: addSnapshotModified_def Let_def split: option.splits sum.splits)

lemma find_append_new:
  "find P xs = None \<Longrightarrow> P x \<Longrightarrow> find P (xs @ [x]) = Some x"
  by (induction xs) (auto split: if_splits)

lemma createSnapshot_effect:
  "(getSnapshot db g \<noteq> None \<longrightarrow>
      createSnapshot g now input None db =
        (Inl (SQLiteError ''UNIQUE constraint failed: snapshots.id''), db))
   \<and> (getSnapshot db g = None \<longrightarrow>
      (\<exists>row db1. createSnapshot g now input None db = (Inr (Some row), db1)
         \<and> id_snapshot row = g \<and> getSnapshot db1 g = Some row \<and> txn db1 = txn db))"
proof (cases "getSnapshot db g")
  case None
  then show ?thesis
    by (simp add: createSnapshot_def Let_def getSnapshot_def find_append_new)
next
  case (Some a)
  then show ?thesis by (simp add: createSnapshot_def Let_def)
qed

lemma getSnapshot_cong_snapshots:
  "snapshots (tables db1) = snapshots (tables db) \<Longrightarrow> getSnapshot db1 i = getSnapshot db i"
  by (simp add: getSnapshot_def)

lemma addCreatedItems_effect:
  "txn (snd (addCreatedItems sid items db)) = txn db
   \<and> snapshots (tables (snd (addCreatedItems sid items db))) = snapshots (tables db)
   \<and> (getSnapshot db sid \<noteq> None \<longrightarrow> \<not> isl (fst (addCreatedItems sid items db)))"
proof (induction items arbitrary: db)
  case Nil
  then show ?case by simp
next
  case (Cons item items)
  let ?item = "\<lparr>thingsId = thingsId item, itemType = itemType item,
              CreatedItemInput.title = CreatedItemInput.title item,
              parentId = CreatedItemInput.parentId item\<rparr>"
  obtain r db1 where s: "addSnapshotCreated sid ?item db = (r, db1)"
    by (cases "addSnapshotCreated sid ?item db")
  have t: "txn db1 = txn db"
    and n: "snapshots (tables db1) = snapshots (tables db)"
    and f: "isl r \<longleftrightarrow> getSnapshot db sid = None"
    using addSnapshotCreated_effect [of sid ?item db] s by simp_all
  have g: "getSnapshot db1 sid = getSnapshot db sid"
    using n by (rule getSnapshot_cong_snapshots)
  show ?case
  proof (cases r)
    case (Inl e)
    then have "addCreatedItems sid (item # items) db = (Inl e, db1)"
      using s by simp
    then show ?thesis using t n f Inl by simp
  next
    case (Inr u)
    then have "addCreatedItems sid (item # items) db = addCreatedItems sid items db1"
      using s by simp
    then show ?thesis using Cons.IH [of db1] t n g by simp
  qed
qed

lemma addStatusChanges_effect:
  "txn (snd (addStatusChanges sid items db)) = txn db
   \<and> snapshots (tables (snd (addStatusChanges sid items db))) = snapshots (tables db)
   \<and> (getSnapshot db sid \<noteq> None \<longrightarrow> \<not> isl (fst (addStatusChanges sid items db)))"
proof (induction items arbitrary: db)
  case Nil
  then show ?case by simp
next
  case (Cons item items)
  let ?item = "\<lparr>thingsId = thingsId item, itemType = itemType item,
              StatusChangeInput.previousStatus = StatusChangeInput.previousStatus item,
              newStatus = StatusChangeInput.newStatus item\<rparr>"
  obtain r db1 where s: "addSnapshotStatus sid ?item db = (r, db1)"
    by (cases "addSnapshotStatus sid ?item db")
  have t: "txn db1 = txn db"
    and n: "snapshots (tables db1) = snapshots (tables db)"
    and f: "isl r \<longleftrightarrow> getSnapshot db sid = None"
    using addSnapshotStatus_effect [of sid ?item db] s by simp_all
  have g: "getSnapshot db1 sid = getSnapshot db sid"
    using n by (rule getSnapshot_cong_snapshots)
  show ?case
  proof (cases r)
    case (Inl e)
    then have "addStatusChanges sid (item # items) db = (Inl e, db1)"
      using s by simp
    then show ?thesis using t n f Inl by simp
  next
    case (Inr u)
    then have "addStatusChanges sid (item # items) db = addStatusChanges sid items db1"
      using s by simp
    then show ?thesis using Cons.IH [of db1] t n g by simp
  qed
qed

lemma addModifiedItems_effect:
  "txn (snd (addModifiedItems render sid items db)) = txn db
   \<and> snapshots (tables (snd (addModifiedItems render sid items db))) = snapshots (tables db)"
proof (induction items arbitrary: db)
  case Nil
  then show ?case by simp
next
  case (Cons item items)
  let ?item = "\<lparr>thingsId = thingsId item, itemType = itemType item,
              ModifiedItemInput.previousState = ModifiedItemInput.previousState item,
              modifiedFields = ModifiedItemInput.modifiedFields item\<rparr>"
  obtain r db1 where s: "addSnapshotModified render sid ?item db = (r, db1)"
    by (cases "addSnapshotModified render sid ?item db")
  have t: "txn db1 = txn db"
    and n: "snapshots (tables db1) = snapshots (tables db)"
    using addSnapshotModified_effect [of render sid ?item db] s by simp_all
  show ?case
  proof (cases r)
    case (Inl e)
    then have "addModifiedItems render sid (item # items) db = (Inl e, db1)"
      using s by simp
    then show ?thesis using t n by simp
  next
    case (Inr u)
    then have "addModifiedItems render sid (item # items) db
        = addModifiedItems render sid items db1"
      using s by simp
    then show ?thesis using Cons.IH [of db1] t n by simp
  qed
qed

text \<open>The shape that the five operations share: the parent insert, then the children.\<close>

lemma parent_then_children:
  assumes op: "\<And>db. op db =
      (case createSnapshot g now input None db of
         (Inl e, db1) \<Rightarrow> (Inl e, db1)
       | (Inr None, db1) \<Rightarrow> (Inl null_snapshot, db1)
       | (Inr (Some snapshot), db1) \<Rightarrow>
           (case children (id_snapshot snapshot) db1 of
              (Inl e, db2) \<Rightarrow> (Inl e, db2)
            | (Inr _, db2) \<Rightarrow> (Inr snapshot, db2)))"
    and keep: "\<And>sid db. txn (snd (children sid db)) = txn db
                \<and> snapshots (tables (snd (children sid db))) = snapshots (tables db)"
  shows "txn (snd (op db)) = txn db"
    and "isl (fst (op db)) \<Longrightarrow> getSnapshot db g = None \<Longrightarrow> getSnapshot (snd (op db)) g \<noteq> None"
    and "getSnapshot db g \<noteq> None \<Longrightarrow> isl (fst (op db)) \<and> snd (op db) = db"
    and "(\<And>sid db. getSnapshot db sid \<noteq> None \<Longrightarrow> \<not> isl (fst (children sid db))) \<Longrightarrow>
         isl (fst (op db)) \<Longrightarrow> snd (op db) = db"
proof -
  note c = createSnapshot_effect [of db g now input]
  show exists: "getSnapshot db g \<noteq> None \<Longrightarrow> isl (fst (op db)) \<and> snd (op db) = db"
    using c by (simp add: op)
  have fresh: "getSnapshot db g = None \<Longrightarrow>
      \<exists>row db1. op db = (case children g db1 of
                           (Inl e, db2) \<Rightarrow> (Inl e, db2)
                         | (Inr _, db2) \<Rightarrow> (Inr row, db2))
        \<and> getSnapshot db1 g = Some row \<and> txn db1 = txn db"
  proof -
    assume "getSnapshot db g = None"
    with c obtain row db1 where
      cs: "createSnapshot g now input None db = (Inr (Some row), db1)"
      and i: "id_snapshot row = g"
      and r: "getSnapshot db1 g = Some row" "txn db1 = txn db"
      by blast
    have "op db = (case children g db1 of
                           (Inl e, db2) \<Rightarrow> (Inl e, db2)
                         | (Inr _, db2) \<Rightarrow> (Inr row, db2))"
      by (simp add: op cs i)
    with r show ?thesis by blast
  qed
  show "txn (snd (op db)) = txn db"
  proof (cases "getSnapshot db g")
    case None
    from fresh [OF None] obtain row db1 where
      o: "op db = (case children g db1 of
                           (Inl e, db2) \<Rightarrow> (Inl e, db2)
                         | (Inr _, db2) \<Rightarrow> (Inr row, db2))"
      and t: "txn db1 = txn db" by blast
    obtain r db2 where ch: "children g db1 = (r, db2)" by (cases "children g db1")
    have "txn db2 = txn db1" using keep [of g db1] ch by simp
    then show ?thesis using o ch t by (cases r) simp_all
  next
    case (Some a)
    then show ?thesis using exists by simp
  qed
  show "isl (fst (op db)) \<Longrightarrow> getSnapshot db g = None \<Longrightarrow> getSnapshot (snd (op db)) g \<noteq> None"
  proof -
    assume "getSnapshot db g = None"
    from fresh [OF this] obtain row db1 where
      o: "op db = (case children g db1 of
                           (Inl e, db2) \<Rightarrow> (Inl e, db2)
                         | (Inr _, db2) \<Rightarrow> (Inr row, db2))"
      and s: "getSnapshot db1 g = Some row" by blast
    obtain r db2 where ch: "children g db1 = (r, db2)" by (cases "children g db1")
    have "getSnapshot db2 g = getSnapshot db1 g"
      using keep [of g db1] ch by (intro getSnapshot_cong_snapshots) simp
    then show "getSnapshot (snd (op db)) g \<noteq> None" using o ch s by (cases r) simp_all
  qed
  show "(\<And>sid db. getSnapshot db sid \<noteq> None \<Longrightarrow> \<not> isl (fst (children sid db))) \<Longrightarrow>
         isl (fst (op db)) \<Longrightarrow> snd (op db) = db"
  proof -
    assume ok: "\<And>sid db. getSnapshot db sid \<noteq> None \<Longrightarrow> \<not> isl (fst (children sid db))"
      and failed: "isl (fst (op db))"
    show "snd (op db) = db"
    proof (cases "getSnapshot db g")
      case None
      from fresh [OF None] obtain row db1 where
        o: "op db = (case children g db1 of
                           (Inl e, db2) \<Rightarrow> (Inl e, db2)
                         | (Inr _, db2) \<Rightarrow> (Inr row, db2))"
        and s: "getSnapshot db1 g = Some row" by blast
      obtain r db2 where ch: "children g db1 = (r, db2)" by (cases "children g db1")
      have "\<not> isl r" using ok [of db1 g] s ch by simp
      then have "\<not> isl (fst (op db))" using o ch by (cases r) simp_all
      with failed show ?thesis by simp
    next
      case (Some a)
      then show ?thesis using exists by simp
    qed
  qed
qed

lemma withTransaction_undone:
  assumes "txn db = None"
    and keep: "\<And>d. txn (snd (f d)) = txn d"
    and failed: "isl (fst (withTransaction db f))"
  shows "snd (withTransaction db f) = db"
proof -
  let ?db1 = "db\<lparr>txn := Some (tables db)\<rparr>"
  have b: "begin_transaction db = Inr ?db1"
    using assms(1) by (simp add: begin_transaction_def)
  obtain r db2 where f: "f ?db1 = (r, db2)" by (cases "f ?db1")
  have t: "txn db2 = Some (tables db)"
    using keep [of ?db1] f by simp
  have c: "commit db2 = Inr (db2\<lparr>txn := None\<rparr>)"
    using t by (simp add: commit_def)
  have rb: "rollback db2 = Inr (db2\<lparr>tables := tables db, txn := None\<rparr>)"
    using t by (simp add: rollback_def)
  have same: "db2\<lparr>tables := tables db, txn := None\<rparr> = db"
    using assms(1) by simp
  show ?thesis
  proof (cases r)
    case (Inl e)
    then show ?thesis using b f rb same by (simp add: withTransaction_def)
  next
    case (Inr v)
    then have "\<not> isl (fst (withTransaction db f))"
      using b f c by (simp add: withTransaction_def)
    with failed show ?thesis by simp
  qed
qed

lemma createAddSnapshot_effect:
  "txn (snd (createAddSnapshot g now d db)) = txn db"
  "isl (fst (createAddSnapshot g now d db)) \<Longrightarrow> snd (createAddSnapshot g now d db) = db"
proof -
  let ?children = "\<lambda>sid. addSnapshotCreated sid
                  \<lparr>thingsId = thingsId d, itemType = itemType d,
                   CreatedItemInput.title = CreatedItemInput.title d,
                   parentId = CreatedItemInput.parentId d\<rparr>"
  note p = parent_then_children [where op = "createAddSnapshot g now d" and children = ?children
      and g = g and now = now, OF createAddSnapshot_def]
  have keep: "\<And>sid db. txn (snd (?children sid db)) = txn db
                \<and> snapshots (tables (snd (?children sid db))) = snapshots (tables db)"
    using addSnapshotCreated_effect by simp
  have ok: "\<And>sid db. getSnapshot db sid \<noteq> None \<Longrightarrow> \<not> isl (fst (?children sid db))"
    using addSnapshotCreated_effect by simp
  show "txn (snd (createAddSnapshot g now d db)) = txn db"
    by (rule p(1) [OF keep])
  show "isl (fst (createAddSnapshot g now d db)) \<Longrightarrow> snd (createAddSnapshot g now d db) = db"
    by (rule p(4) [OF keep ok])
qed

lemma createAddProjectSnapshot_effect:
  "txn (snd (createAddProjectSnapshot g now d db)) = txn db"
  "isl (fst (createAddProjectSnapshot g now d db)) \<Longrightarrow>
     snd (createAddProjectSnapshot g now d db) = db"
proof -
  let ?children = "\<lambda>sid. addSnapshotCreated sid
                  \<lparr>thingsId = thingsId d, itemType = Project,
                   CreatedItemInput.title = CreatedItemInput.title d,
                   parentId = CreatedItemInput.parentId d\<rparr>"
  note p = parent_then_children [where op = "createAddProjectSnapshot g now d"
      and children = ?children and g = g and now = now, OF createAddProjectSnapshot_def]
  have keep: "\<And>sid db. txn (snd (?children sid db)) = txn db
                \<and> snapshots (tables (snd (?children sid db))) = snapshots (tables db)"
    using addSnapshotCreated_effect by simp
  have ok: "\<And>sid db. getSnapshot db sid \<noteq> None \<Longrightarrow> \<not> isl (fst (?children sid db))"
    using addSnapshotCreated_effect by simp
  show "txn (snd (createAddProjectSnapshot g now d db)) = txn db"
    by (rule p(1) [OF keep])
  show "isl (fst (createAddProjectSnapshot g now d db)) \<Longrightarrow>
     snd (createAddProjectSnapshot g now d db) = db"
    by (rule p(4) [OF keep ok])
qed

lemma createStatusChangeSnapshot_effect:
  "txn (snd (createStatusChangeSnapshot g now d db)) = txn db"
  "isl (fst (createStatusChangeSnapshot g now d db)) \<Longrightarrow>
     snd (createStatusChangeSnapshot g now d db) = db"
proof -
  let ?children = "\<lambda>sid. addSnapshotStatus sid
                     \<lparr>thingsId = thingsId d, itemType = itemType d,
                      StatusChangeInput.previousStatus = StatusChangeInput.previousStatus d,
                      newStatus = StatusChangeInput.newStatus d\<rparr>"
  have shape: "\<And>db. createStatusChangeSnapshot g now d db =
      (case createSnapshot g now
                \<lparr>CreateSnapshotInput.description =
                   (if (if StatusChangeInput.newStatus d = ''completed'' then Complete else Cancel)
                       = Complete then ''Completed'' else ''Canceled'')
                   @ '' '' @ itemTypeText (itemType d)
                   @ [CHR '' '', CHR 0x22] @ StatusChangeData.title d @ [CHR 0x22],
                 operationType =
                   (if StatusChangeInput.newStatus d = ''completed'' then Complete else Cancel),
                 command = StatusChangeData.command d\<rparr> None db of
         (Inl e, db1) \<Rightarrow> (Inl e, db1)
       | (Inr None, db1) \<Rightarrow> (Inl null_snapshot, db1)
       | (Inr (Some snapshot), db1) \<Rightarrow>
           (case ?children (id_snapshot snapshot) db1 of
              (Inl e, db2) \<Rightarrow> (Inl e, db2)
            | (Inr _, db2) \<Rightarrow> (Inr snapshot, db2)))"
    by (simp only: createStatusChangeSnapshot_def Let_def)
  note p = parent_then_children [where op = "createStatusChangeSnapshot g now d"
      and children = ?children and g = g and now = now, OF shape]
  have keep: "\<And>sid db. txn (snd (?children sid db)) = txn db
                \<and> snapshots (tables (snd (?children sid db))) = snapshots (tables db)"
    using addSnapshotStatus_effect by simp
  have ok: "\<And>sid db. getSnapshot db sid \<noteq> None \<Longrightarrow> \<not> isl (fst (?children sid db))"
    using addSnapshotStatus_effect by simp
  show "txn (snd (createStatusChangeSnapshot g now d db)) = txn db"
    by (rule p(1) [OF keep])
  show "isl (fst (createStatusChangeSnapshot g now d db)) \<Longrightarrow>
     snd (createStatusChangeSnapshot g now d db) = db"
    by (rule p(4) [OF keep ok])
qed

lemma createUpdateSnapshot_effect:
  "txn (snd (createUpdateSnapshot render g now d db)) = txn db"
  "isl (fst (createUpdateSnapshot render g now d db)) \<Longrightarrow> getSnapshot db g = None \<Longrightarrow>
     getSnapshot (snd (createUpdateSnapshot render g now d db)) g \<noteq> None"
proof -
  let ?children = "\<lambda>sid. addSnapshotModified render sid
                  \<lparr>thingsId = thingsId d, itemType = itemType d,
                   ModifiedItemInput.previousState = ModifiedItemInput.previousState d,
                   modifiedFields = ModifiedItemInput.modifiedFields d\<rparr>"
  note p = parent_then_children [where op = "createUpdateSnapshot render g now d"
      and children = ?children and g = g and now = now, OF createUpdateSnapshot_def]
  have keep: "\<And>sid db. txn (snd (?children sid db)) = txn db
                \<and> snapshots (tables (snd (?children sid db))) = snapshots (tables db)"
    by (simp add: addSnapshotModified_effect)
  show "txn (snd (createUpdateSnapshot render g now d db)) = txn db"
    by (rule p(1) [OF keep])
  show "isl (fst (createUpdateSnapshot render g now d db)) \<Longrightarrow> getSnapshot db g = None \<Longrightarrow>
     getSnapshot (snd (createUpdateSnapshot render g now d db)) g \<noteq> None"
    by (rule p(2) [OF keep])
qed

lemma seq_assoc:
  "(case (case x of (Inl e, d) \<Rightarrow> (Inl e, d) | (Inr u, d) \<Rightarrow> k d) of
      (Inl e, d) \<Rightarrow> (Inl e, d)
    | (Inr v, d) \<Rightarrow> h d)
   = (case x of
        (Inl e, d) \<Rightarrow> (Inl e, d)
      | (Inr u, d) \<Rightarrow> (case k d of (Inl e, d) \<Rightarrow> (Inl e, d) | (Inr v, d) \<Rightarrow> h d))"
proof (cases x)
  case (Pair r d)
  then show ?thesis by (cases r) simp_all
qed

lemma createBulkSnapshot_effect:
  "txn (snd (createBulkSnapshot render g now d db)) = txn db"
  "isl (fst (createBulkSnapshot render g now d db)) \<Longrightarrow> getSnapshot db g = None \<Longrightarrow>
     getSnapshot (snd (createBulkSnapshot render g now d db)) g \<noteq> None"
proof -
  let ?children = "\<lambda>sid db1.
       case addCreatedItems sid (BulkSnapshotData.createdItems d) db1 of
         (Inl e, db2) \<Rightarrow> (Inl e, db2)
       | (Inr _, db2) \<Rightarrow>
           (case addModifiedItems render sid (BulkSnapshotData.modifiedItems d) db2 of
              (Inl e, db3) \<Rightarrow> (Inl e, db3)
            | (Inr _, db3) \<Rightarrow> addStatusChanges sid (BulkSnapshotData.statusChanges d) db3)"
  have shape: "\<And>db. createBulkSnapshot render g now d db =
      (case createSnapshot g now
                \<lparr>CreateSnapshotInput.description =
                   ''Bulk operation: ''
                   @ decimal (length (BulkSnapshotData.createdItems d)
                              + length (BulkSnapshotData.modifiedItems d)
                              + length (BulkSnapshotData.statusChanges d))
                   @ '' items'',
                 operationType = Json,
                 command = BulkSnapshotData.command d\<rparr> None db of
         (Inl e, db1) \<Rightarrow> (Inl e, db1)
       | (Inr None, db1) \<Rightarrow> (Inl null_snapshot, db1)
       | (Inr (Some snapshot), db1) \<Rightarrow>
           (case ?children (id_snapshot snapshot) db1 of
              (Inl e, db2) \<Rightarrow> (Inl e, db2)
            | (Inr _, db2) \<Rightarrow> (Inr snapshot, db2)))"
    unfolding createBulkSnapshot_def Let_def seq_assoc
    by (rule refl)
  have keep: "\<And>sid db. txn (snd (?children sid db)) = txn db
                \<and> snapshots (tables (snd (?children sid db))) = snapshots (tables db)"
  proof -
    fix sid db
    obtain r1 db1 where a: "addCreatedItems sid (BulkSnapshotData.createdItems d) db = (r1, db1)"
      by (cases "addCreatedItems sid (BulkSnapshotData.createdItems d) db")
    obtain r2 db2 where b: "addModifiedItems render sid (BulkSnapshotData.modifiedItems d) db1
        = (r2, db2)"
      by (cases "addModifiedItems render sid (BulkSnapshotData.modifiedItems d) db1")
    obtain r3 db3 where c: "addStatusChanges sid (BulkSnapshotData.statusChanges d) db2
        = (r3, db3)"
      by (cases "addStatusChanges sid (BulkSnapshotData.statusChanges d) db2")
    have k1: "txn db1 = txn db" "snapshots (tables db1) = snapshots (tables db)"
      using addCreatedItems_effect [of sid "BulkSnapshotData.createdItems d" db] a by simp_all
    have k2: "txn db2 = txn db1" "snapshots (tables db2) = snapshots (tables db1)"
      using addModifiedItems_effect [of render sid "BulkSnapshotData.modifiedItems d" db1] b
      by simp_all
    have k3: "txn db3 = txn db2" "snapshots (tables db3) = snapshots (tables db2)"
      using addStatusChanges_effect [of sid "BulkSnapshotData.statusChanges d" db2] c
      by simp_all
    show "txn (snd (?children sid db)) = txn db
                \<and> snapshots (tables (snd (?children sid db))) = snapshots (tables db)"
    proof (cases r1)
      case (Inl e)
      then show ?thesis using a k1 by simp
    next
      case r1: (Inr u)
      show ?thesis
      proof (cases r2)
        case (Inl e)
        then show ?thesis using a b r1 k1 k2 by simp
      next
        case (Inr v)
        then show ?thesis using a b c r1 k1 k2 k3 by simp
      qed
    qed
  qed
  note p = parent_then_children [where op = "createBulkSnapshot render g now d"
      and children = ?children and g = g and now = now, OF shape]
  show "txn (snd (createBulkSnapshot render g now d db)) = txn db"
    by (rule p(1) [OF keep])
  show "isl (fst (createBulkSnapshot render g now d db)) \<Longrightarrow> getSnapshot db g = None \<Longrightarrow>
     getSnapshot (snd (createBulkSnapshot render g now d db)) g \<noteq> None"
    by (rule p(2) [OF keep])
qed

text \<open>
  Claim C4, as amended. Run inside \<^verbatim>\<open>withTransaction\<close> on a database with no open
  transaction, each of the five snapshot-creating operations is undone when it throws: the
  database is as it was. Run by themselves, as the manager runs them,
  \<^verbatim>\<open>createAddSnapshot\<close>, \<^verbatim>\<open>createAddProjectSnapshot\<close> and
  \<^verbatim>\<open>createStatusChangeSnapshot\<close> leave the database as it was when they throw (only
  the insert of the parent can violate a constraint), while \<^verbatim>\<open>createUpdateSnapshot\<close>
  and \<^verbatim>\<open>createBulkSnapshot\<close>, when they throw after the parent was inserted, leave the
  parent row in the store.
\<close>

theorem snapshot_creation_atomicity:
  "(txn db = None \<longrightarrow>
      (isl (fst (withTransaction db (createAddSnapshot g now d1))) \<longrightarrow>
         snd (withTransaction db (createAddSnapshot g now d1)) = db)
    \<and> (isl (fst (withTransaction db (createAddProjectSnapshot g now d1))) \<longrightarrow>
         snd (withTransaction db (createAddProjectSnapshot g now d1)) = db)
    \<and> (isl (fst (withTransaction db (createUpdateSnapshot render g now d2))) \<longrightarrow>
         snd (withTransaction db (createUpdateSnapshot render g now d2)) = db)
    \<and> (isl (fst (withTransaction db (createStatusChangeSnapshot g now d3))) \<longrightarrow>
         snd (withTransaction db (createStatusChangeSnapshot g now d3)) = db)
    \<and> (isl (fst (withTransaction db (createBulkSnapshot render g now d4))) \<longrightarrow>
         snd (withTransaction db (createBulkSnapshot render g now d4)) = db))
   \<and> (isl (fst (createAddSnapshot g now d1 db)) \<longrightarrow> snd (createAddSnapshot g now d1 db) = db)
   \<and> (isl (fst (createAddProjectSnapshot g now d1 db)) \<longrightarrow>
        snd (createAddProjectSnapshot g now d1 db) = db)
   \<and> (isl (fst (createStatusChangeSnapshot g now d3 db)) \<longrightarrow>
        snd (createStatusChangeSnapshot g now d3 db) = db)
   \<and> (isl (fst (createUpdateSnapshot render g now d2 db)) \<and> getSnapshot db g = None \<longrightarrow>
        getSnapshot (snd (createUpdateSnapshot render g now d2 db)) g \<noteq> None)
   \<and> (isl (fst (createBulkSnapshot render g now d4 db)) \<and> getSnapshot db g = None \<longrightarrow>
        getSnapshot (snd (createBulkSnapshot render g now d4 db)) g \<noteq> None)"
proof -
  have tx: "txn db = None \<longrightarrow>
      (isl (fst (withTransaction db (createAddSnapshot g now d1))) \<longrightarrow>
         snd (withTransaction db (createAddSnapshot g now d1)) = db)
    \<and> (isl (fst (withTransaction db (createAddProjectSnapshot g now d1))) \<longrightarrow>
         snd (withTransaction db (createAddProjectSnapshot g now d1)) = db)
    \<and> (isl (fst (withTransaction db (createUpdateSnapshot render g now d2))) \<longrightarrow>
         snd (withTransaction db (createUpdateSnapshot render g now d2)) = db)
    \<and> (isl (fst (withTransaction db (createStatusChangeSnapshot g now d3))) \<longrightarrow>
         snd (withTransaction db (createStatusChangeSnapshot g now d3)) = db)
    \<and> (isl (fst (withTransaction db (createBulkSnapshot render g now d4))) \<longrightarrow>
         snd (withTransaction db (createBulkSnapshot render g now d4)) = db)"
  proof
    assume t: "txn db = None"
    note u = withTransaction_undone [OF t]
    have 1: "isl (fst (withTransaction db (createAddSnapshot g now d1))) \<longrightarrow>
         snd (withTransaction db (createAddSnapshot g now d1)) = db"
      using u [of "createAddSnapshot g now d1", OF createAddSnapshot_effect(1)] by (rule impI)
    have 2: "isl (fst (withTransaction db (createAddProjectSnapshot g now d1))) \<longrightarrow>
         snd (withTransaction db (createAddProjectSnapshot g now d1)) = db"
      using u [of "createAddProjectSnapshot g now d1", OF createAddProjectSnapshot_effect(1)]
      by (rule impI)
    have 3: "isl (fst (withTransaction db (createUpdateSnapshot render g now d2))) \<longrightarrow>
         snd (withTransaction db (createUpdateSnapshot render g now d2)) = db"
      using u [of "createUpdateSnapshot render g now d2", OF createUpdateSnapshot_effect(1)]
      by (rule impI)
    have 4: "isl (fst (withTransaction db (createStatusChangeSnapshot g now d3))) \<longrightarrow>
         snd (withTransaction db (createStatusChangeSnapshot g now d3)) = db"
      using u [of "createStatusChangeSnapshot g now d3",
          OF createStatusChangeSnapshot_effect(1)]
      by (rule impI)
    have 5: "isl (fst (withTransaction db (createBulkSnapshot render g now d4))) \<longrightarrow>
         snd (withTransaction db (createBulkSnapshot render g now d4)) = db"
      using u [of "createBulkSnapshot render g now d4", OF createBulkSnapshot_effect(1)]
      by (rule impI)
    from 1 2 3 4 5 show "(isl (fst (withTransaction db (createAddSnapshot g now d1))) \<longrightarrow>
         snd (withTransaction db (createAddSnapshot g now d1)) = db)
    \<and> (isl (fst (withTransaction db (createAddProjectSnapshot g now d1))) \<longrightarrow>
         snd (withTransaction db (createAddProjectSnapshot g now d1)) = db)
    \<and> (isl (fst (withTransaction db (createUpdateSnapshot render g now d2))) \<longrightarrow>
         snd (withTransaction db (createUpdateSnapshot render g now d2)) = db)
    \<and> (isl (fst (withTransaction db (createStatusChangeSnapshot g now d3))) \<longrightarrow>
         snd (withTransaction db (createStatusChangeSnapshot g now d3)) = db)
    \<and> (isl (fst (withTransaction db (createBulkSnapshot render g now d4))) \<longrightarrow>
         snd (withTransaction db (createBulkSnapshot render g now d4)) = db)"
      by (intro conjI)
  qed
  have a: "isl (fst (createAddSnapshot g now d1 db)) \<longrightarrow> snd (createAddSnapshot g now d1 db) = db"
    using createAddSnapshot_effect(2) [of g now d1 db] by (rule impI)
  have b: "isl (fst (createAddProjectSnapshot g now d1 db)) \<longrightarrow>
        snd (createAddProjectSnapshot g now d1 db) = db"
    using createAddProjectSnapshot_effect(2) [of g now d1 db] by (rule impI)
  have c: "isl (fst (createStatusChangeSnapshot g now d3 db)) \<longrightarrow>
        snd (createStatusChangeSnapshot g now d3 db) = db"
    using createStatusChangeSnapshot_effect(2) [of g now d3 db] by (rule impI)
  have d: "isl (fst (createUpdateSnapshot render g now d2 db)) \<and> getSnapshot db g = None \<longrightarrow>
        getSnapshot (snd (createUpdateSnapshot render g now d2 db)) g \<noteq> None"
    using createUpdateSnapshot_effect(2) [of render g now d2 db] by blast
  have e: "isl (fst (createBulkSnapshot render g now d4 db)) \<and> getSnapshot db g = None \<longrightarrow>
        getSnapshot (snd (createBulkSnapshot render g now d4 db)) g \<noteq> None"
    using createBulkSnapshot_effect(2) [of render g now d4 db] by blast
  from tx a b c d e show ?thesis by (intro conjI)
qed

lemma example_bulk_fails:
  "createBulkSnapshot example_render ''snap-9'' ''2024-01-01 00:00:00'' example_bulk
     empty_Database
   = (Inl (TypeError ''JSON.stringify cannot serialize BigInt.''),
      \<lparr>tables =
         \<lparr>snapshots =
            [\<lparr>id_snapshot = ''snap-9'', description = ''Bulk operation: 2 items'',
              operationType = Json, command = ''things3 json ...'',
              createdAt = ''2024-01-01 00:00:00'', rolledBackAt = None, status = Active\<rparr>],
          snapshot_created =
            [\<lparr>thingsId = ''new-1'', itemType = ToDo, id_item = 1, snapshotId = ''snap-9'',
              title = ''New Task'', parentId = None\<rparr>],
          snapshot_modified = [],
          snapshot_status = []\<rparr>,
       txn = None\<rparr>)"
  by (simp add: createBulkSnapshot_def example_bulk_def empty_Database_def createSnapshot_def
      getSnapshot_def addSnapshotCreated_def addSnapshotModified_def JSON_stringify_def
      next_rowid_def Let_def)

lemma example_bulk_in_transaction:
  "isl (fst (withTransaction empty_Database
               (createBulkSnapshot example_render ''snap-9'' ''2024-01-01 00:00:00''
                  example_bulk)))"
  by (simp add: withTransaction_def begin_transaction_def rollback_def
      createBulkSnapshot_def example_bulk_def empty_Database_def createSnapshot_def
      getSnapshot_def addSnapshotCreated_def addSnapshotModified_def JSON_stringify_def
      next_rowid_def Let_def)

theorem snapshot_creation_atomicity_witness:
  "txn empty_Database = None
   \<and> isl (fst (withTransaction empty_Database
                 (createBulkSnapshot example_render ''snap-9'' ''2024-01-01 00:00:00''
                    example_bulk)))
   \<and> snd (withTransaction empty_Database
             (createBulkSnapshot example_render ''snap-9'' ''2024-01-01 00:00:00''
                example_bulk))
      = empty_Database
   \<and> isl (fst (createBulkSnapshot example_render ''snap-9'' ''2024-01-01 00:00:00''
                 example_bulk empty_Database))
   \<and> getSnapshot empty_Database ''snap-9'' = None
   \<and> getSnapshot
        (snd (createBulkSnapshot example_render ''snap-9'' ''2024-01-01 00:00:00''
                example_bulk empty_Database)) ''snap-9''
      = Some \<lparr>id_snapshot = ''snap-9'', description = ''Bulk operation: 2 items'',
              operationType = Json, command = ''things3 json ...'',
              createdAt = ''2024-01-01 00:00:00'', rolledBackAt = None, status = Active\<rparr>"
proof -
  note th = snapshot_creation_atomicity [where db = empty_Database and g = "''snap-9''"
      and now = "''2024-01-01 00:00:00''" and render = example_render and ?d4.0 = example_bulk]
  have t: "txn empty_Database = None" by (simp add: empty_Database_def)
  from th t example_bulk_in_transaction
  have u: "snd (withTransaction empty_Database
             (createBulkSnapshot example_render ''snap-9'' ''2024-01-01 00:00:00''
                example_bulk))
      = empty_Database"
    by blast
  have f: "isl (fst (createBulkSnapshot example_render ''snap-9'' ''2024-01-01 00:00:00''
                 example_bulk empty_Database))"
    by (simp add: example_bulk_fails)
  have n: "getSnapshot empty_Database ''snap-9'' = None"
    by (simp add: getSnapshot_def empty_Database_def)
  have p: "getSnapshot
        (snd (createBulkSnapshot example_render ''snap-9'' ''2024-01-01 00:00:00''
                example_bulk empty_Database)) ''snap-9''
      = Some \<lparr>id_snapshot = ''snap-9'', description = ''Bulk operation: 2 items'',
              operationType = Json, command = ''things3 json ...'',
              createdAt = ''2024-01-01 00:00:00'', rolledBackAt = None, status = Active\<rparr>"
    by (simp add: example_bulk_fails getSnapshot_def)
  from t example_bulk_in_transaction u f n p show ?thesis by (intro conjI)
qed

text \<open>
  The claim C4 as the specification words it fails: \<^verbatim>\<open>createBulkSnapshot\<close> with one
  created item and one modified item whose previous state holds a BigInt throws the
  \<^verbatim>\<open>TypeError\<close> of \<^verbatim>\<open>JSON.stringify\<close>, and the store, empty before, then holds the
  parent row and the created-item row.
\<close>

theorem snapshot_creation_atomicity_counterexample:
  "createBulkSnapshot example_render ''snap-9'' ''2024-01-01 00:00:00'' example_bulk
     empty_Database
   = (Inl (TypeError ''JSON.stringify cannot serialize BigInt.''),
      \<lparr>tables =
         \<lparr>snapshots =
            [\<lparr>id_snapshot = ''snap-9'', description = ''Bulk operation: 2 items'',
              operationType = Json, command = ''things3 json ...'',
              createdAt = ''2024-01-01 00:00:00'', rolledBackAt = None, status = Active\<rparr>],
          snapshot_created =
            [\<lparr>thingsId = ''new-1'', itemType = ToDo, id_item = 1, snapshotId = ''snap-9'',
              title = ''New Task'', parentId = None\<rparr>],
          snapshot_modified = [],
          snapshot_status = []\<rparr>,
       txn = None\<rparr>)
   \<and> snapshots (tables empty_Database) = []
   \<and> snapshot_created (tables empty_Database) = []"
  by (simp add: example_bulk_fails) (simp add: empty_Database_def)

end
